theory Spec2Isabelle
  imports Complex_Main
begin

section \<open>The host node graph\<close>

text \<open>
  The exporter reads Blender's shader node graph and never changes it. Nodes and sockets
  are Python objects compared by identity, so the graph is a store: a node or a socket is
  an identifier, and the graph maps identifiers to their contents. Floats are modelled as
  real numbers.
\<close>

type_synonym node_id = nat
type_synonym sock_id = nat
type_synonym tree_id = nat

text \<open>The exceptions the Python code can raise.\<close>

datatype error =
    AttributeError
  | IndexError
  | KeyError
  | StopIteration
  | AssertionError
  | TypeError
  | RecursionError

text \<open>
  A literal as the code passes it around: a float (a scalar default value), or a list of
  floats (a colour or a vector).
\<close>

datatype const = CFloat real | CList "real list"

text \<open>\<^verbatim>\<open>list(x)\<close>: a float is not iterable.\<close>

fun py_list :: "const \<Rightarrow> error + real list" where
  "py_list (CFloat r) = Inl TypeError"
| "py_list (CList xs) = Inr xs"

text \<open>\<^verbatim>\<open>c == r\<close> for a number \<open>r\<close>: a list never equals a number, nor does None.\<close>

fun const_eq_num :: "const option \<Rightarrow> real \<Rightarrow> bool" where
  "const_eq_num (Some (CFloat x)) r = (x = r)"
| "const_eq_num _ r = False"

record socket =
  sock_node :: node_id
  is_output :: bool
  name :: string
  sock_identifier :: string
  sock_type :: string
  default_value :: const
  enabled :: bool

text \<open>
  \<^verbatim>\<open>node.type\<close> with the attributes that exist on a node of that type:
  the node tree of a group, the data and blend type of a mix node, the operation of a math
  node, the layer of a colour attribute node, the attribute type and name of an attribute
  node, the direction type and UV map of a tangent node, whether an image texture has an
  image, the vector type of a mapping node.
\<close>

datatype node_data =
    REROUTE
  | GROUP "tree_id option"
  | GROUP_INPUT
  | GROUP_OUTPUT
  | RGB
  | VALUE
  | MIX string string
  | MATH string
  | VECT_MATH string
  | VERTEX_COLOR string
  | ATTRIBUTE string string
  | TANGENT string string
  | SEPXYZ
  | TEX_IMAGE bool
  | BSDF_PRINCIPLED
  | MAPPING string
  | OTHER string

record shader_node =
  data :: node_data
  inputs :: "sock_id list"
  outputs :: "sock_id list"

text \<open>
  A link is a pair (from socket, to socket); \<open>links\<close> keeps the order of the tree's link
  collection. \<open>tree_nodes\<close> lists the nodes of a node tree in order.
\<close>

record graph =
  node_of :: "node_id \<Rightarrow> shader_node"
  sock_of :: "sock_id \<Rightarrow> socket"
  links :: "(sock_id \<times> sock_id) list"
  tree_nodes :: "tree_id \<Rightarrow> node_id list"

text \<open>\<^verbatim>\<open>socket.links\<close>: the links leaving an output socket, or entering an input socket.\<close>

definition socket_links :: "graph \<Rightarrow> sock_id \<Rightarrow> (sock_id \<times> sock_id) list" where
  "socket_links g s =
     (if is_output (sock_of g s) then filter (\<lambda>l. fst l = s) (links g)
      else filter (\<lambda>l. snd l = s) (links g))"

definition is_linked :: "graph \<Rightarrow> sock_id \<Rightarrow> bool" where
  "is_linked g s = (socket_links g s \<noteq> [])"

definition from_node :: "graph \<Rightarrow> sock_id \<times> sock_id \<Rightarrow> node_id" where
  "from_node g l = sock_node (sock_of g (fst l))"

definition to_node :: "graph \<Rightarrow> sock_id \<times> sock_id \<Rightarrow> node_id" where
  "to_node g l = sock_node (sock_of g (snd l))"

text \<open>\<^verbatim>\<open>xs[i]\<close> for an integer: negative indices count from the end.\<close>

definition py_index :: "'a list \<Rightarrow> int \<Rightarrow> error + 'a" where
  "py_index xs i =
     (if 0 \<le> i \<and> i < int (length xs) then Inr (xs ! nat i)
      else if i < 0 \<and> - int (length xs) \<le> i then Inr (xs ! nat (int (length xs) + i))
      else Inl IndexError)"

text \<open>The position of the first element equal to \<open>x\<close>.\<close>

fun index_of :: "'a \<Rightarrow> 'a list \<Rightarrow> nat option" where
  "index_of x [] = None"
| "index_of x (y # ys) =
     (if y = x then Some 0 else map_option Suc (index_of x ys))"

section \<open>NodeNav: the traversal cursor\<close>

text \<open>
  An entry of a group path: a group node, or the material itself, which the socket
  resolver puts at the bottom of every group path.
\<close>

datatype path_entry = Material | GroupNode node_id

record NodeNav =
  node :: node_id
  out_socket :: "sock_id option"
  in_socket :: "sock_id option"
  stack :: "(path_entry \<times> sock_id option) list"
  moved :: bool

text \<open>
  The \<^verbatim>\<open>in_soc\<close> argument: None, a socket, an integer or a string. The search by
  identifier runs over all inputs; the host's lookup \<^verbatim>\<open>node.inputs[name]\<close> returns the
  first enabled input of that name and raises KeyError when there is none.
\<close>

datatype selector = SelNone | SelSocket sock_id | SelInt int | SelStr string

definition select_input_socket :: "graph \<Rightarrow> NodeNav \<Rightarrow> selector \<Rightarrow> error + NodeNav" where
  "select_input_socket g nav in_soc =
     (case in_soc of
        SelNone \<Rightarrow> Inr nav
      | SelSocket s \<Rightarrow>
          (if sock_node (sock_of g s) = node nav then Inr (nav\<lparr>in_socket := Some s\<rparr>)
           else Inl AssertionError)
      | SelInt i \<Rightarrow>
          (case py_index (inputs (node_of g (node nav))) i of
             Inl e \<Rightarrow> Inl e
           | Inr s \<Rightarrow> Inr (nav\<lparr>in_socket := Some s\<rparr>))
      | SelStr str \<Rightarrow>
          (case (if str \<noteq> [] \<and> hd str = CHR ''#''
                 then find (\<lambda>s. sock_identifier (sock_of g s) = tl str)
                        (inputs (node_of g (node nav)))
                 else None) of
             Some s \<Rightarrow> Inr (nav\<lparr>in_socket := Some s\<rparr>)
           | None \<Rightarrow>
               (case find (\<lambda>s. enabled (sock_of g s) \<and> name (sock_of g s) = str)
                       (inputs (node_of g (node nav))) of
                  None \<Rightarrow> Inl KeyError
                | Some s \<Rightarrow> Inr (nav\<lparr>in_socket := Some s\<rparr>))))"

definition get_out_socket_index :: "graph \<Rightarrow> NodeNav \<Rightarrow> error + nat" where
  "get_out_socket_index g nav =
     (case out_socket nav of
        None \<Rightarrow> Inl AssertionError
      | Some s \<Rightarrow>
          (case index_of s (outputs (node_of g (node nav))) of
             None \<Rightarrow> Inl AssertionError
           | Some i \<Rightarrow> Inr i))"

text \<open>Descend into a group node: push (group node, socket), go to the group's output node.\<close>

definition descend :: "graph \<Rightarrow> NodeNav \<Rightarrow> error + NodeNav" where
  "descend g nav =
     (case data (node_of g (node nav)) of
        GROUP (Some t) \<Rightarrow>
          (case out_socket nav of
             None \<Rightarrow> Inr nav
           | Some os \<Rightarrow>
               (case get_out_socket_index g nav of
                  Inl e \<Rightarrow> Inl e
                | Inr i \<Rightarrow>
                    (case find (\<lambda>n. data (node_of g n) = GROUP_OUTPUT) (tree_nodes g t) of
                       None \<Rightarrow> Inl StopIteration
                     | Some go \<Rightarrow>
                         (case py_index (inputs (node_of g go)) (int i) of
                            Inl e \<Rightarrow> Inl e
                          | Inr s \<Rightarrow>
                              Inr (nav\<lparr>node := go, out_socket := None, in_socket := Some s,
                                        stack := stack nav @ [(GroupNode (node nav), Some os)]\<rparr>)))))
      | _ \<Rightarrow> Inr nav)"

text \<open>
  Ascend from a group input node: pop the stack, go back to the group node. A popped
  material has no \<^verbatim>\<open>inputs\<close>.
\<close>

definition ascend :: "graph \<Rightarrow> NodeNav \<Rightarrow> error + NodeNav" where
  "ascend g nav =
     (if stack nav \<noteq> [] \<and> data (node_of g (node nav)) = GROUP_INPUT \<and> out_socket nav \<noteq> None
      then
        (case get_out_socket_index g nav of
           Inl e \<Rightarrow> Inl e
         | Inr i \<Rightarrow>
             (case fst (last (stack nav)) of
                Material \<Rightarrow> Inl AttributeError
              | GroupNode gn \<Rightarrow>
                  (case py_index (inputs (node_of g gn)) (int i) of
                     Inl e \<Rightarrow> Inl e
                   | Inr s \<Rightarrow>
                       Inr (nav\<lparr>node := gn,
                                 out_socket := snd (last (stack nav)),
                                 in_socket := Some s,
                                 stack := butlast (stack nav)\<rparr>))))
      else Inr nav)"

text \<open>
  \<^verbatim>\<open>move_back\<close> calls itself while it crosses reroutes and group boundaries. The first
  argument is the call depth the interpreter still allows: at depth 0 Python raises
  RecursionError.
\<close>

fun move_back :: "nat \<Rightarrow> graph \<Rightarrow> NodeNav \<Rightarrow> selector \<Rightarrow> error + NodeNav" where
  "move_back 0 g nav in_soc = Inl RecursionError"
| "move_back (Suc depth) g nav in_soc =
     (case select_input_socket g (nav\<lparr>moved := False\<rparr>) in_soc of
        Inl e \<Rightarrow> Inl e
      | Inr nav1 \<Rightarrow>
          (case in_socket nav1 of
             None \<Rightarrow> Inr nav1
           | Some s \<Rightarrow>
               (case socket_links g s of
                  [] \<Rightarrow> Inr nav1
                | link # _ \<Rightarrow>
                    (let nav2 = nav1\<lparr>node := from_node g link, out_socket := Some (fst link),
                                     in_socket := None, moved := True\<rparr>
                     in case data (node_of g (node nav2)) of
                          REROUTE \<Rightarrow> move_back depth g nav2 (SelInt 0)
                        | GROUP t \<Rightarrow>
                            (case descend g nav2 of
                               Inl e \<Rightarrow> Inl e
                             | Inr nav3 \<Rightarrow> move_back depth g nav3 SelNone)
                        | GROUP_INPUT \<Rightarrow>
                            (case ascend g nav2 of
                               Inl e \<Rightarrow> Inl e
                             | Inr nav3 \<Rightarrow> move_back depth g nav3 SelNone)
                        | _ \<Rightarrow> Inr nav2))))"

definition peek_back :: "nat \<Rightarrow> graph \<Rightarrow> NodeNav \<Rightarrow> selector \<Rightarrow> error + NodeNav" where
  "peek_back depth g nav in_soc =
     (case select_input_socket g nav in_soc of
        Inl e \<Rightarrow> Inl e
      | Inr s \<Rightarrow> move_back depth g s SelNone)"

text \<open>
  \<^verbatim>\<open>get_constant\<close> selects the input socket on the cursor itself, so it returns the
  cursor with the result. For a VALUE socket fed by a VALUE node the code reads
  \<^verbatim>\<open>nav.node.out_socket\<close>, an attribute no node has.
\<close>

definition get_constant ::
  "nat \<Rightarrow> graph \<Rightarrow> NodeNav \<Rightarrow> selector \<Rightarrow> error + (NodeNav \<times> const option)" where
  "get_constant depth g nav in_soc =
     (case select_input_socket g nav in_soc of
        Inl e \<Rightarrow> Inl e
      | Inr self \<Rightarrow>
          (case in_socket self of
             None \<Rightarrow> Inr (self, None)
           | Some s \<Rightarrow>
               if \<not> is_linked g s then
                 (if sock_type (sock_of g s) = ''RGBA'' then
                    (case py_list (default_value (sock_of g s)) of
                       Inl e \<Rightarrow> Inl e
                     | Inr color \<Rightarrow> Inr (self, Some (CList (take 3 color))))
                  else if sock_type (sock_of g s) = ''SHADER'' then
                    Inr (self, Some (CList [0, 0, 0]))
                  else if sock_type (sock_of g s) = ''VECTOR'' then
                    (case py_list (default_value (sock_of g s)) of
                       Inl e \<Rightarrow> Inl e
                     | Inr v \<Rightarrow> Inr (self, Some (CList v)))
                  else if sock_type (sock_of g s) = ''VALUE'' then
                    Inr (self, Some (default_value (sock_of g s)))
                  else Inr (self, None))
               else
                 (case peek_back depth g self SelNone of
                    Inl e \<Rightarrow> Inl e
                  | Inr nav' \<Rightarrow>
                      if moved nav' then
                        (if sock_type (sock_of g s) = ''RGBA'' then
                           (if data (node_of g (node nav')) = RGB then
                              (case out_socket nav' of
                                 None \<Rightarrow> Inl AttributeError
                               | Some os \<Rightarrow>
                                   (case py_list (default_value (sock_of g os)) of
                                      Inl e \<Rightarrow> Inl e
                                    | Inr color \<Rightarrow> Inr (self, Some (CList (take 3 color)))))
                            else Inr (self, None))
                         else if sock_type (sock_of g s) = ''VALUE'' then
                           (if data (node_of g (node nav')) = VALUE then Inl AttributeError
                            else Inr (self, None))
                         else Inr (self, None))
                      else Inr (self, None))))"

text \<open>
  \<^verbatim>\<open>get_factor\<close>: a constant, or the constant operand of a multiply node. The operands
  are read with \<^verbatim>\<open>nav.get_constant\<close> on the peeked cursor, the second read on the cursor
  the first one left.
\<close>

definition get_factor ::
  "nat \<Rightarrow> graph \<Rightarrow> NodeNav \<Rightarrow> selector \<Rightarrow> error + (NodeNav \<times> const option)" where
  "get_factor depth g nav in_soc =
     (case select_input_socket g nav in_soc of
        Inl e \<Rightarrow> Inl e
      | Inr self \<Rightarrow>
          (case in_socket self of
             None \<Rightarrow> Inr (self, None)
           | Some s \<Rightarrow>
               (case get_constant depth g self SelNone of
                  Inl e \<Rightarrow> Inl e
                | Inr (self, Some fac) \<Rightarrow> Inr (self, Some fac)
                | Inr (self, None) \<Rightarrow>
                    (case peek_back depth g self SelNone of
                       Inl e \<Rightarrow> Inl e
                     | Inr nav' \<Rightarrow>
                         if moved nav' then
                           (case
                              (if sock_type (sock_of g s) = ''RGBA'' then
                                 (case data (node_of g (node nav')) of
                                    MIX data_type blend_type \<Rightarrow>
                                      if data_type = ''RGBA'' \<and> blend_type = ''MULTIPLY'' then
                                        (case get_constant depth g nav' (SelStr ''#A_Color'') of
                                           Inl e \<Rightarrow> Inl e
                                         | Inr (nav1, x1) \<Rightarrow>
                                             (case get_constant depth g nav1 (SelStr ''#B_Color'') of
                                                Inl e \<Rightarrow> Inl e
                                              | Inr (nav2, x2) \<Rightarrow> Inr (x1, x2)))
                                      else Inr (None, None)
                                  | _ \<Rightarrow> Inr (None, None))
                               else if sock_type (sock_of g s) = ''VALUE'' then
                                 (case data (node_of g (node nav')) of
                                    MATH operation \<Rightarrow>
                                      if operation = ''MULTIPLY'' then
                                        (case get_constant depth g nav' (SelInt 0) of
                                           Inl e \<Rightarrow> Inl e
                                         | Inr (nav1, x1) \<Rightarrow>
                                             (case get_constant depth g nav1 (SelInt 1) of
                                                Inl e \<Rightarrow> Inl e
                                              | Inr (nav2, x2) \<Rightarrow> Inr (x1, x2)))
                                      else Inr (None, None)
                                  | _ \<Rightarrow> Inr (None, None))
                               else Inr (None, None)) of
                              Inl e \<Rightarrow> Inl e
                            | Inr (x1, x2) \<Rightarrow>
                                if x1 \<noteq> None \<and> x2 = None then Inr (self, x1)
                                else if x2 \<noteq> None \<and> x1 = None then Inr (self, x2)
                                else Inr (self, None))
                         else Inr (self, None)))))"

section \<open>Alpha\<close>

text \<open>
  The \<^verbatim>\<open>info\<close> dictionary of \<^verbatim>\<open>gather_alpha_info\<close>. The code creates four
  keys and, in the peeling loop, assigns a fifth one, \<^verbatim>\<open>alphaColorAttr\<close>; \<open>None\<close> there
  stands for the key being absent.
\<close>

record alpha_info =
  alphaMode :: "string option"
  alphaCutoff :: "const option"
  alphaFactor :: "const option"
  alphaColorAttrib :: "string option"
  alphaColorAttr :: "string option"

text \<open>
  The detectors take a cursor and may reassign it (\<^verbatim>\<open>nav.assign\<close>), so each returns the
  caller's cursor after the call together with its result.
\<close>

definition detect_alpha_clip ::
  "nat \<Rightarrow> graph \<Rightarrow> NodeNav \<Rightarrow> error + (NodeNav \<times> const option)" where
  "detect_alpha_clip depth g alpha_nav =
     (case peek_back depth g alpha_nav SelNone of
        Inl e \<Rightarrow> Inl e
      | Inr nav \<Rightarrow>
          if \<not> moved nav then Inr (alpha_nav, None)
          else
            (case data (node_of g (node nav)) of
               MATH operation \<Rightarrow>
                 if operation = ''ROUND'' then
                   (case select_input_socket g nav (SelInt 0) of
                      Inl e \<Rightarrow> Inl e
                    | Inr nav0 \<Rightarrow> Inr (nav0, Some (CFloat 0.5)))
                 else if operation = ''SUBTRACT'' then
                   (case get_constant depth g nav (SelInt 0) of
                      Inl e \<Rightarrow> Inl e
                    | Inr (nav_s, c) \<Rightarrow>
                        if const_eq_num c 1 then
                          (case peek_back depth g nav_s (SelInt 1) of
                             Inl e \<Rightarrow> Inl e
                           | Inr nav2 \<Rightarrow>
                               if \<not> moved nav2 then Inr (alpha_nav, None)
                               else
                                 (case data (node_of g (node nav2)) of
                                    MATH operation2 \<Rightarrow>
                                      (case get_constant depth g nav2 (SelInt 0) of
                                         Inl e \<Rightarrow> Inl e
                                       | Inr (nav2a, in0) \<Rightarrow>
                                           (case get_constant depth g nav2a (SelInt 1) of
                                              Inl e \<Rightarrow> Inl e
                                            | Inr (nav2b, in1) \<Rightarrow>
                                                if operation2 = ''LESS_THAN'' \<and> in0 = None
                                                   \<and> in1 \<noteq> None
                                                then
                                                  (case select_input_socket g nav2b (SelInt 0) of
                                                     Inl e \<Rightarrow> Inl e
                                                   | Inr nav2c \<Rightarrow> Inr (nav2c, in1))
                                                else if operation2 = ''GREATER_THAN''
                                                   \<and> in0 \<noteq> None \<and> in1 = None
                                                then
                                                  (case select_input_socket g nav2b (SelInt 1) of
                                                     Inl e \<Rightarrow> Inl e
                                                   | Inr nav2c \<Rightarrow> Inr (nav2c, in0))
                                                else Inr (alpha_nav, None)))
                                  | _ \<Rightarrow> Inr (alpha_nav, None)))
                        else Inr (alpha_nav, None))
                 else Inr (alpha_nav, None)
             | _ \<Rightarrow> Inr (alpha_nav, None)))"

text \<open>
  \<^verbatim>\<open>get_multiply_factors\<close> returns two cursors on the operands of a multiply node, or
  (None, None). It does not touch the caller's cursor.
\<close>

definition get_multiply_factors ::
  "nat \<Rightarrow> graph \<Rightarrow> NodeNav \<Rightarrow> error + (NodeNav \<times> NodeNav) option" where
  "get_multiply_factors depth g nav =
     (case peek_back depth g nav SelNone of
        Inl e \<Rightarrow> Inl e
      | Inr prev \<Rightarrow>
          if \<not> moved prev then Inr None
          else
            (case in_socket nav of
               None \<Rightarrow> Inl AttributeError
             | Some s \<Rightarrow>
                 if sock_type (sock_of g s) = ''RGBA'' then
                   (case data (node_of g (node prev)) of
                      MIX data_type blend_type \<Rightarrow>
                        if data_type = ''RGBA'' \<and> blend_type = ''MULTIPLY'' then
                          (case get_constant depth g prev (SelStr ''Fac'') of
                             Inl e \<Rightarrow> Inl e
                           | Inr (prev1, fac) \<Rightarrow>
                               if const_eq_num fac 1 then
                                 (case select_input_socket g prev1 (SelStr ''#A_Color'') of
                                    Inl e \<Rightarrow> Inl e
                                  | Inr fac1 \<Rightarrow>
                                      (case select_input_socket g fac1 (SelStr ''#B_Color'') of
                                         Inl e \<Rightarrow> Inl e
                                       | Inr fac2 \<Rightarrow> Inr (Some (fac1, fac2))))
                               else Inr None)
                        else Inr None
                    | _ \<Rightarrow> Inr None)
                 else if sock_type (sock_of g s) = ''VALUE'' then
                   (case data (node_of g (node prev)) of
                      MATH operation \<Rightarrow>
                        if operation = ''MULTIPLY'' then
                          (case select_input_socket g prev (SelInt 0) of
                             Inl e \<Rightarrow> Inl e
                           | Inr fac1 \<Rightarrow>
                               (case select_input_socket g fac1 (SelInt 1) of
                                  Inl e \<Rightarrow> Inl e
                                | Inr fac2 \<Rightarrow> Inr (Some (fac1, fac2))))
                        else Inr None
                    | _ \<Rightarrow> Inr None)
                 else Inr None))"

definition detect_multiply_by_constant ::
  "nat \<Rightarrow> graph \<Rightarrow> NodeNav \<Rightarrow> error + (NodeNav \<times> const option)" where
  "detect_multiply_by_constant depth g nav =
     (case get_multiply_factors depth g nav of
        Inl e \<Rightarrow> Inl e
      | Inr None \<Rightarrow> Inr (nav, None)
      | Inr (Some (fac1, fac2)) \<Rightarrow>
          (case get_constant depth g fac1 SelNone of
             Inl e \<Rightarrow> Inl e
           | Inr (fac1', Some c) \<Rightarrow> Inr (fac2, Some c)
           | Inr (fac1', None) \<Rightarrow>
               (case get_constant depth g fac2 SelNone of
                  Inl e \<Rightarrow> Inl e
                | Inr (fac2', Some c) \<Rightarrow> Inr (fac1', Some c)
                | Inr (fac2', None) \<Rightarrow> Inr (nav, None))))"

text \<open>
  The name of the colour attribute feeding the cursor's input. A blank layer name of a
  colour attribute node is returned as it is; a blank name of an attribute node is not.
\<close>

definition get_color_attrib :: "nat \<Rightarrow> graph \<Rightarrow> NodeNav \<Rightarrow> error + string option" where
  "get_color_attrib depth g nav0 =
     (case peek_back depth g nav0 SelNone of
        Inl e \<Rightarrow> Inl e
      | Inr nav \<Rightarrow>
          if \<not> moved nav then Inr None
          else
            (case data (node_of g (node nav)) of
               VERTEX_COLOR layer_name \<Rightarrow> Inr (Some layer_name)
             | ATTRIBUTE attribute_type attribute_name \<Rightarrow>
                 if attribute_type = ''GEOMETRY'' \<and> attribute_name \<noteq> []
                 then Inr (Some attribute_name) else Inr None
             | _ \<Rightarrow> Inr None))"

definition detect_multiply_by_color_attrib ::
  "nat \<Rightarrow> graph \<Rightarrow> NodeNav \<Rightarrow> error + (NodeNav \<times> string option)" where
  "detect_multiply_by_color_attrib depth g nav =
     (case get_multiply_factors depth g nav of
        Inl e \<Rightarrow> Inl e
      | Inr None \<Rightarrow> Inr (nav, None)
      | Inr (Some (fac1, fac2)) \<Rightarrow>
          (case get_color_attrib depth g fac1 of
             Inl e \<Rightarrow> Inl e
           | Inr (Some attr) \<Rightarrow> Inr (fac2, Some attr)
           | Inr None \<Rightarrow>
               (case get_color_attrib depth g fac2 of
                  Inl e \<Rightarrow> Inl e
                | Inr (Some attr) \<Rightarrow> Inr (fac1, Some attr)
                | Inr None \<Rightarrow> Inr (nav, None))))"

text \<open>
  The loop \<^verbatim>\<open>for _ in range(2)\<close> of \<^verbatim>\<open>gather_alpha_info\<close>. Each half of the
  body ends in \<^verbatim>\<open>break\<close>, in \<^verbatim>\<open>continue\<close>, or falls through to the next
  statement.
\<close>

datatype loop_step = Break | Continue | FallThrough

definition alpha_factor_step ::
  "nat \<Rightarrow> graph \<Rightarrow> NodeNav \<Rightarrow> alpha_info \<Rightarrow> error + (loop_step \<times> NodeNav \<times> alpha_info)" where
  "alpha_factor_step depth g alpha_nav info =
     (if alphaFactor info = None then
        (case get_constant depth g alpha_nav SelNone of
           Inl e \<Rightarrow> Inl e
         | Inr (nav1, Some a) \<Rightarrow> Inr (Break, nav1, info\<lparr>alphaFactor := Some a\<rparr>)
         | Inr (nav1, None) \<Rightarrow>
             (case detect_multiply_by_constant depth g nav1 of
                Inl e \<Rightarrow> Inl e
              | Inr (nav2, Some a) \<Rightarrow> Inr (Continue, nav2, info\<lparr>alphaFactor := Some a\<rparr>)
              | Inr (nav2, None) \<Rightarrow> Inr (FallThrough, nav2, info)))
      else Inr (FallThrough, alpha_nav, info))"

definition alpha_attrib_step ::
  "nat \<Rightarrow> graph \<Rightarrow> NodeNav \<Rightarrow> alpha_info \<Rightarrow> error + (loop_step \<times> NodeNav \<times> alpha_info)" where
  "alpha_attrib_step depth g alpha_nav info =
     (if alphaColorAttrib info = None then
        (case get_color_attrib depth g alpha_nav of
           Inl e \<Rightarrow> Inl e
         | Inr (Some attr) \<Rightarrow> Inr (Break, alpha_nav, info\<lparr>alphaColorAttr := Some attr\<rparr>)
         | Inr None \<Rightarrow>
             (case detect_multiply_by_color_attrib depth g alpha_nav of
                Inl e \<Rightarrow> Inl e
              | Inr (nav2, Some attr) \<Rightarrow>
                  Inr (Continue, nav2, info\<lparr>alphaColorAttr := Some attr\<rparr>)
              | Inr (nav2, None) \<Rightarrow> Inr (FallThrough, nav2, info)))
      else Inr (FallThrough, alpha_nav, info))"

fun alpha_passes ::
  "nat \<Rightarrow> nat \<Rightarrow> graph \<Rightarrow> NodeNav \<Rightarrow> alpha_info \<Rightarrow> error + (NodeNav \<times> alpha_info)" where
  "alpha_passes 0 depth g alpha_nav info = Inr (alpha_nav, info)"
| "alpha_passes (Suc k) depth g alpha_nav info =
     (case alpha_factor_step depth g alpha_nav info of
        Inl e \<Rightarrow> Inl e
      | Inr (Break, nav1, info1) \<Rightarrow> Inr (nav1, info1)
      | Inr (Continue, nav1, info1) \<Rightarrow> alpha_passes k depth g nav1 info1
      | Inr (FallThrough, nav1, info1) \<Rightarrow>
          (case alpha_attrib_step depth g nav1 info1 of
             Inl e \<Rightarrow> Inl e
           | Inr (Continue, nav2, info2) \<Rightarrow> alpha_passes k depth g nav2 info2
           | Inr (_, nav2, info2) \<Rightarrow> Inr (nav2, info2)))"

definition gather_alpha_info :: "nat \<Rightarrow> graph \<Rightarrow> NodeNav option \<Rightarrow> error + alpha_info" where
  "gather_alpha_info depth g alpha_nav_opt =
     (let info = \<lparr>alphaMode = None, alphaCutoff = None, alphaFactor = None,
                  alphaColorAttrib = None, alphaColorAttr = None\<rparr>
      in case alpha_nav_opt of
           None \<Rightarrow> Inr info
         | Some alpha_nav \<Rightarrow>
             (case get_constant depth g alpha_nav SelNone of
                Inl e \<Rightarrow> Inl e
              | Inr (nav0, c) \<Rightarrow>
                  if const_eq_num c 1 then Inr (info\<lparr>alphaMode := Some ''OPAQUE''\<rparr>)
                  else
                    (case detect_alpha_clip depth g nav0 of
                       Inl e \<Rightarrow> Inl e
                     | Inr (nav1, cutoff) \<Rightarrow>
                         (case alpha_passes 2 depth g nav1
                                 (if cutoff \<noteq> None
                                  then info\<lparr>alphaMode := Some ''MASK'', alphaCutoff := cutoff\<rparr>
                                  else info) of
                            Inl e \<Rightarrow> Inl e
                          | Inr (nav2, info2) \<Rightarrow>
                              if alphaMode info2 = None then
                                (if const_eq_num (alphaFactor info2) 0
                                 then Inr (info2\<lparr>alphaMode := Some ''MASK'',
                                                  alphaCutoff := Some (CFloat 0.5)\<rparr>)
                                 else Inr (info2\<lparr>alphaMode := Some ''BLEND''\<rparr>))
                              else Inr info2))))"

section \<open>The specular extension\<close>

text \<open>
  \<^verbatim>\<open>export_specular\<close> builds the dictionary of the \<^verbatim>\<open>KHR_materials_specular\<close> extension
  from the two specular inputs of the principled node. The values it handles: None, a
  float, a list or a tuple of floats (a tuple never equals a list), and a gathered
  texture, kept as an opaque handle.
\<close>

datatype pyval =
    PNone
  | PFloat real
  | PList "real list"
  | PTuple "real list"
  | PTexture nat

text \<open>
  The module \<^verbatim>\<open>gltf2_blender_get\<close> and \<^verbatim>\<open>gather_texture_info\<close> are not part of the
  sources at hand, so they are parameters: the factor read behind a linked socket for a
  kind (VALUE or RGB), whether an image node feeds a socket, and the texture gathered from
  a socket with its UV map information. The two sockets \<^verbatim>\<open>get_socket\<close> returns are
  arguments of \<open>export_specular\<close>: None, or a socket of the graph.
\<close>

record blender_get =
  get_factor_from_socket_host :: "sock_id \<Rightarrow> string \<Rightarrow> pyval"
  has_image_node_from_socket_host :: "sock_id \<Rightarrow> bool"
  gather_texture_info :: "sock_id \<Rightarrow> nat \<times> nat"

record Extension =
  ext_name :: string
  extension :: "(string \<times> pyval) list"
  required :: bool

text \<open>\<^verbatim>\<open>d[k] = v\<close> on a dictionary kept in insertion order.\<close>

fun dict_set :: "('k \<times> 'v) list \<Rightarrow> 'k \<Rightarrow> 'v \<Rightarrow> ('k \<times> 'v) list" where
  "dict_set [] k v = [(k, v)]"
| "dict_set (p # ps) k v = (if fst p = k then (k, v) # ps else p # dict_set ps k v)"

text \<open>The local variables of \<^verbatim>\<open>export_specular\<close> that outlive a branch.\<close>

record specular_state =
  fac :: "real option"
  specular_extension :: "(string \<times> pyval) list"
  uvmap_infos :: "(string \<times> nat) list"
  extensions_needed :: bool

text \<open>The texture part of a linked input, stored under \<open>key\<close>.\<close>

definition specular_texture ::
  "blender_get \<Rightarrow> sock_id \<Rightarrow> string \<Rightarrow> specular_state \<Rightarrow> specular_state" where
  "specular_texture host soc key st =
     (if has_image_node_from_socket_host host soc then
        (let (tex, uvmap_info) = gather_texture_info host soc in
         st\<lparr>specular_extension := dict_set (specular_extension st) key (PTexture tex),
            uvmap_infos := dict_set (uvmap_infos st) key uvmap_info,
            extensions_needed := True\<rparr>)
      else st)"

text \<open>
  The strength input. Unlinked: the default value doubled; below 1 it is stored as
  specularFactor, above 1 only the extension is marked as needed. Linked: the factor the
  host reads, doubled unless it is None or exactly 1, then the texture.
\<close>

definition specular_strength ::
  "blender_get \<Rightarrow> graph \<Rightarrow> sock_id \<Rightarrow> specular_state \<Rightarrow> error + specular_state" where
  "specular_strength host g specular_socket st =
     (if \<not> is_linked g specular_socket then
        (case default_value (sock_of g specular_socket) of
           CList xs \<Rightarrow> Inl TypeError
         | CFloat d \<Rightarrow>
             (let f = d * 2 in
              if f < 1 then
                Inr (st\<lparr>fac := Some f,
                        specular_extension := dict_set (specular_extension st) ''specularFactor'' (PFloat f),
                        extensions_needed := True\<rparr>)
              else if f > 1 then Inr (st\<lparr>fac := Some f, extensions_needed := True\<rparr>)
              else Inr (st\<lparr>fac := Some f\<rparr>)))
      else
        (case get_factor_from_socket_host host specular_socket ''VALUE'' of
           PNone \<Rightarrow> Inr (specular_texture host specular_socket ''specularTexture'' (st\<lparr>fac := None\<rparr>))
         | PFloat x \<Rightarrow>
             (if x \<noteq> 1 then
                (let f = x * 2 in
                 Inr (specular_texture host specular_socket ''specularTexture''
                  (if f < 1 then
                     st\<lparr>fac := Some f,
                        specular_extension := dict_set (specular_extension st) ''specularFactor'' (PFloat f),
                        extensions_needed := True\<rparr>
                   else if f > 1 then st\<lparr>fac := Some f, extensions_needed := True\<rparr>
                   else st\<lparr>fac := Some f\<rparr>)))
              else Inr (specular_texture host specular_socket ''specularTexture'' (st\<lparr>fac := Some x\<rparr>)))
         | _ \<Rightarrow> Inl TypeError))"

text \<open>\<^verbatim>\<open>fac is not None and fac > 1.0\<close>, and the colour scaled by the factor.\<close>

definition fac_exceeds :: "real option \<Rightarrow> bool" where
  "fac_exceeds f = (case f of None \<Rightarrow> False | Some x \<Rightarrow> x > 1)"

definition scale3 :: "real list \<Rightarrow> real \<Rightarrow> error + real list" where
  "scale3 c f =
     (if length c < 3 then Inl IndexError else Inr [c ! 0 * f, c ! 1 * f, c ! 2 * f])"

text \<open>
  \<^verbatim>\<open>specularColorFactor\<close> is always stored: the colour, or None when the colour equals the
  tuple (1, 1, 1); only a colour that differs marks the extension as needed.
\<close>

definition store_color :: "pyval \<Rightarrow> specular_state \<Rightarrow> specular_state" where
  "store_color c st =
     (let st' = st\<lparr>specular_extension :=
                   dict_set (specular_extension st) ''specularColorFactor''
                     (if c \<noteq> PTuple [1, 1, 1] then c else PNone)\<rparr>
      in if c \<noteq> PTuple [1, 1, 1] then st'\<lparr>extensions_needed := True\<rparr> else st')"

text \<open>
  The tint input. Unlinked: the first three components of the default colour (a slice of
  the host's array, a tuple), scaled by the factor when that exceeds 1. Linked: the colour
  factor the host reads, scaled likewise, or the factor itself on all three channels when
  there is none; then the texture.
\<close>

definition specular_tint ::
  "blender_get \<Rightarrow> graph \<Rightarrow> sock_id \<Rightarrow> specular_state \<Rightarrow> error + specular_state" where
  "specular_tint host g speculartint_socket st =
     (if \<not> is_linked g speculartint_socket then
        (case default_value (sock_of g speculartint_socket) of
           CFloat d \<Rightarrow> Inl TypeError
         | CList xs \<Rightarrow>
             (let color = take 3 xs in
              if fac_exceeds (fac st) then
                (case scale3 color (the (fac st)) of
                   Inl e \<Rightarrow> Inl e
                 | Inr color' \<Rightarrow> Inr (store_color (PTuple color') st))
              else Inr (store_color (PTuple color) st)))
      else
        (case
           (case get_factor_from_socket_host host speculartint_socket ''RGB'' of
              PNone \<Rightarrow>
                (if fac_exceeds (fac st)
                 then Inr (PTuple [the (fac st), the (fac st), the (fac st)]) else Inr PNone)
            | PList xs \<Rightarrow>
                (if fac_exceeds (fac st) then map_sum id PTuple (scale3 xs (the (fac st)))
                 else Inr (PList xs))
            | PTuple xs \<Rightarrow>
                (if fac_exceeds (fac st) then map_sum id PTuple (scale3 xs (the (fac st)))
                 else Inr (PTuple xs))
            | v \<Rightarrow> (if fac_exceeds (fac st) then Inl TypeError else Inr v))
         of
           Inl e \<Rightarrow> Inl e
         | Inr fac_color \<Rightarrow>
             Inr (specular_texture host speculartint_socket ''specularColorTexture''
                    (store_color fac_color st))))"

definition export_specular ::
  "blender_get \<Rightarrow> graph \<Rightarrow> sock_id option \<Rightarrow> sock_id option \<Rightarrow>
   error + (Extension option \<times> (string \<times> nat) list)" where
  "export_specular host g specular_socket speculartint_socket =
     (case (specular_socket, speculartint_socket) of
        (Some s, Some t) \<Rightarrow>
          (case specular_strength host g s
                  \<lparr>fac = None, specular_extension = [], uvmap_infos = [],
                   extensions_needed = False\<rparr> of
             Inl e \<Rightarrow> Inl e
           | Inr st1 \<Rightarrow>
               (case specular_tint host g t st1 of
                  Inl e \<Rightarrow> Inl e
                | Inr st2 \<Rightarrow>
                    (if \<not> extensions_needed st2 then Inr (None, [])
                     else Inr (Some \<lparr>ext_name = ''KHR_materials_specular'',
                                     extension = specular_extension st2,
                                     required = False\<rparr>, uvmap_infos st2))))
      | _ \<Rightarrow> Inr (None, []))"

section \<open>The texture transform of a mapping node\<close>

text \<open>Sequencing: an exception raised by the first step ends the computation.\<close>

definition on_value :: "error + 'a \<Rightarrow> ('a \<Rightarrow> error + 'b) \<Rightarrow> error + 'b" where
  "on_value m f = (case m of Inl e \<Rightarrow> Inl e | Inr x \<Rightarrow> f x)"










section \<open>Anisotropy\<close>

text \<open>
  A \<^verbatim>\<open>NodeSocket\<close> pairs a socket with the path of group nodes that leads to it;
  \<^verbatim>\<open>NodeSocket(None, None)\<close> stands for no socket.
\<close>

record NodeSocket =
  socket :: "sock_id option"
  group_path :: "path_entry list option"

text \<open>\<^verbatim>\<open>socket.links[0]\<close>, and the first element of a list comprehension.\<close>

definition first_link :: "graph \<Rightarrow> sock_id \<Rightarrow> error + (sock_id \<times> sock_id)" where
  "first_link g s = (case socket_links g s of [] \<Rightarrow> Inl IndexError | l # ls \<Rightarrow> Inr l)"

definition first_where :: "('a \<Rightarrow> bool) \<Rightarrow> 'a list \<Rightarrow> error + 'a" where
  "first_where P xs = (case find P xs of None \<Rightarrow> Inl IndexError | Some x \<Rightarrow> Inr x)"

text \<open>
  Entering a group: the input of the group's output node that carries the name of the
  socket left. Leaving a group: the input of that name on the last group node of the
  path; the material at the bottom of a path has no inputs.
\<close>

definition group_output_socket :: "graph \<Rightarrow> node_id \<Rightarrow> string \<Rightarrow> error + sock_id" where
  "group_output_socket g group_node socket_name =
     (case data (node_of g group_node) of
        GROUP (Some tree) \<Rightarrow>
          on_value (first_where (\<lambda>n. data (node_of g n) = GROUP_OUTPUT) (tree_nodes g tree))
            (\<lambda>group_output_node.
               first_where (\<lambda>s. name (sock_of g s) = socket_name)
                 (inputs (node_of g group_output_node)))
      | _ \<Rightarrow> Inl AttributeError)"

definition group_input_socket :: "graph \<Rightarrow> path_entry list \<Rightarrow> string \<Rightarrow> error + sock_id" where
  "group_input_socket g path socket_name =
     (if path = [] then Inl IndexError
      else case last path of
             Material \<Rightarrow> Inl AttributeError
           | GroupNode n \<Rightarrow>
               first_where (\<lambda>s. name (sock_of g s) = socket_name) (inputs (node_of g n)))"

text \<open>
  \<^verbatim>\<open>previous_socket\<close> walks back over groups and reroutes in a \<^verbatim>\<open>while True\<close> loop; the
  model counts its iterations, and None means that the loop has not ended within
  \<open>fuel\<close> iterations.
\<close>

fun previous_socket_loop ::
  "nat \<Rightarrow> graph \<Rightarrow> sock_id \<Rightarrow> path_entry list \<Rightarrow> (error + NodeSocket) option" where
  "previous_socket_loop 0 g soc path = None"
| "previous_socket_loop (Suc fuel) g soc path =
     (case socket_links g soc of
        [] \<Rightarrow> Some (Inr \<lparr>socket = None, group_path = None\<rparr>)
      | l # ls \<Rightarrow>
          (let from_socket = fst l; n = sock_node (sock_of g from_socket) in
           case data (node_of g n) of
             GROUP tree \<Rightarrow>
               (case group_output_socket g n (name (sock_of g from_socket)) of
                  Inl e \<Rightarrow> Some (Inl e)
                | Inr s \<Rightarrow> previous_socket_loop fuel g s (path @ [GroupNode n]))
           | GROUP_INPUT \<Rightarrow>
               (case group_input_socket g path (name (sock_of g from_socket)) of
                  Inl e \<Rightarrow> Some (Inl e)
                | Inr s \<Rightarrow> previous_socket_loop fuel g s (butlast path))
           | REROUTE \<Rightarrow>
               (case py_index (inputs (node_of g n)) 0 of
                  Inl e \<Rightarrow> Some (Inl e)
                | Inr s \<Rightarrow> previous_socket_loop fuel g s path)
           | _ \<Rightarrow> Some (Inr \<lparr>socket = Some from_socket, group_path = Some path\<rparr>)))"

definition previous_socket :: "nat \<Rightarrow> graph \<Rightarrow> NodeSocket \<Rightarrow> (error + NodeSocket) option" where
  "previous_socket fuel g ns =
     (case group_path ns of
        None \<Rightarrow> Some (Inl AttributeError)
      | Some gp \<Rightarrow>
          (case socket ns of
             None \<Rightarrow> Some (Inl AttributeError)
           | Some soc \<Rightarrow> previous_socket_loop fuel g soc gp))"

definition previous_node ::
  "nat \<Rightarrow> graph \<Rightarrow> NodeSocket \<Rightarrow> (error + (node_id \<times> path_entry list option) option) option" where
  "previous_node fuel g ns =
     map_option
       (\<lambda>r. on_value r (\<lambda>prev_socket.
          case socket prev_socket of
            Some s \<Rightarrow> Inr (Some (sock_node (sock_of g s), group_path prev_socket))
          | None \<Rightarrow> Inr None))
       (previous_socket fuel g ns)"

text \<open>
  \<^verbatim>\<open>from_socket\<close> searches the nodes feeding a socket, depth first, for those passing a
  filter; \<open>is_tex_image\<close> is the filter by the image texture type. The search is
  recursive, and \<open>depth\<close> bounds the call depth as for \<open>move_back\<close>. The model keeps
  the nodes found and drops the link paths, which no caller here reads. The group path
  comes back with the result: entering a group appends to the list the caller passed,
  while every recursive call works on a copy.
\<close>

definition is_tex_image :: "node_data \<Rightarrow> bool" where
  "is_tex_image d = (case d of TEX_IMAGE has_image \<Rightarrow> True | _ \<Rightarrow> False)"

fun search_from_socket ::
    "nat \<Rightarrow> graph \<Rightarrow> (node_id \<Rightarrow> bool) \<Rightarrow> sock_id \<Rightarrow> path_entry list option \<Rightarrow>
     error + (node_id list \<times> path_entry list option)"
  and search_links ::
    "nat \<Rightarrow> graph \<Rightarrow> (node_id \<Rightarrow> bool) \<Rightarrow> (sock_id \<times> sock_id) list \<Rightarrow> path_entry list option \<Rightarrow>
     node_id list \<Rightarrow> error + (node_id list \<times> path_entry list option)"
  and search_inputs ::
    "nat \<Rightarrow> graph \<Rightarrow> (node_id \<Rightarrow> bool) \<Rightarrow> sock_id list \<Rightarrow> path_entry list option \<Rightarrow>
     node_id list \<Rightarrow> error + node_id list"
where
  "search_from_socket 0 g shader_node_filter start_socket path = Inl RecursionError"
| "search_from_socket (Suc depth) g shader_node_filter start_socket path =
     search_links depth g shader_node_filter (socket_links g start_socket) path []"
| "search_links depth g shader_node_filter [] path results = Inr (results, path)"
| "search_links depth g shader_node_filter (link # rest) path results =
     (let linked_node = from_node g link in
      case data (node_of g linked_node) of
        GROUP tree \<Rightarrow>
          (case group_output_socket g linked_node (name (sock_of g (fst link))) of
             Inl e \<Rightarrow> Inl e
           | Inr s \<Rightarrow>
               (case path of
                  None \<Rightarrow> Inl AttributeError
                | Some gp \<Rightarrow>
                    (case search_from_socket depth g shader_node_filter s
                            (Some (gp @ [GroupNode linked_node])) of
                       Inl e \<Rightarrow> Inl e
                     | Inr (linked_results, gp') \<Rightarrow>
                         search_links depth g shader_node_filter rest
                           (Some (gp @ [GroupNode linked_node])) (results @ linked_results))))
      | GROUP_INPUT \<Rightarrow>
          (case path of
             None \<Rightarrow> Inl TypeError
           | Some gp \<Rightarrow>
               (case group_input_socket g gp (name (sock_of g (fst link))) of
                  Inl e \<Rightarrow> Inl e
                | Inr s \<Rightarrow>
                    (case search_from_socket depth g shader_node_filter s (Some (butlast gp)) of
                       Inl e \<Rightarrow> Inl e
                     | Inr (linked_results, gp') \<Rightarrow>
                         search_links depth g shader_node_filter rest path
                           (results @ linked_results))))
      | _ \<Rightarrow>
          (case search_inputs depth g shader_node_filter (inputs (node_of g linked_node)) path
                  (if shader_node_filter linked_node then results @ [linked_node] else results) of
             Inl e \<Rightarrow> Inl e
           | Inr results' \<Rightarrow> search_links depth g shader_node_filter rest path results'))"
| "search_inputs depth g shader_node_filter [] path results = Inr results"
| "search_inputs depth g shader_node_filter (inp # rest) path results =
     (case path of
        None \<Rightarrow> Inl AttributeError
      | Some gp \<Rightarrow>
          (case search_from_socket depth g shader_node_filter inp (Some gp) of
             Inl e \<Rightarrow> Inl e
           | Inr (linked_results, gp') \<Rightarrow>
               search_inputs depth g shader_node_filter rest path
                 (results @ linked_results)))"


text \<open>The body of \<^verbatim>\<open>from_socket\<close>.\<close>

definition from_socket_search ::
  "nat \<Rightarrow> graph \<Rightarrow> (node_id \<Rightarrow> bool) \<Rightarrow> NodeSocket \<Rightarrow>
   error + (node_id list \<times> path_entry list option)" where
  "from_socket_search depth g shader_node_filter start_socket =
     (case socket start_socket of
        None \<Rightarrow> Inr ([], group_path start_socket)
      | Some s \<Rightarrow>
          if shader_node_filter (sock_node (sock_of g s)) then
            (case group_path start_socket of
               None \<Rightarrow> Inl AttributeError
             | Some gp \<Rightarrow> Inr ([sock_node (sock_of g s)], Some gp))
          else search_from_socket depth g shader_node_filter s (group_path start_socket))"

text \<open>
  The first image texture found, if it has an image. The cache decorator of the source
  is taken to leave results as they are.
\<close>

definition get_texture_node_from_socket ::
  "nat \<Rightarrow> graph \<Rightarrow> NodeSocket \<Rightarrow> error + (node_id option \<times> path_entry list option)" where
  "get_texture_node_from_socket depth g ns =
     on_value (from_socket_search depth g (\<lambda>n. is_tex_image (data (node_of g n))) ns)
       (\<lambda>(result, path).
          case result of
            [] \<Rightarrow> Inr (None, path)
          | n # ns \<Rightarrow>
              (case data (node_of g n) of
                 TEX_IMAGE has_image \<Rightarrow> Inr (if has_image then Some n else None, path)
               | _ \<Rightarrow> Inl AttributeError))"

definition has_image_node_from_socket ::
  "nat \<Rightarrow> graph \<Rightarrow> NodeSocket \<Rightarrow> error + (bool \<times> path_entry list option)" where
  "has_image_node_from_socket depth g ns =
     on_value (get_texture_node_from_socket depth g ns)
       (\<lambda>(result, path). Inr (result \<noteq> None, path))"

text \<open>A cursor on the socket's node, and the constant read through it.\<close>

definition to_node_nav :: "graph \<Rightarrow> NodeSocket \<Rightarrow> error + NodeNav" where
  "to_node_nav g ns =
     (case socket ns of
        None \<Rightarrow> Inl AssertionError
      | Some s \<Rightarrow>
          (case group_path ns of
             None \<Rightarrow> Inl TypeError
           | Some gp \<Rightarrow>
               Inr \<lparr>node = sock_node (sock_of g s),
                    out_socket = (if is_output (sock_of g s) then Some s else None),
                    in_socket = (if \<not> is_output (sock_of g s) then Some s else None),
                    stack = map (\<lambda>n. (n, None)) gp,
                    moved = False\<rparr>))"

definition get_const_from_socket :: "nat \<Rightarrow> graph \<Rightarrow> NodeSocket \<Rightarrow> error + const option" where
  "get_const_from_socket depth g ns =
     on_value (to_node_nav g ns) (\<lambda>nav.
       on_value (get_constant depth g nav SelNone) (\<lambda>(nav', c). Inr c))"

text \<open>
  \<^verbatim>\<open>detect_anisotropy_nodes\<close> returns (False, None), or True with the data below. The
  model follows the source top to bottom in three parts: from the anisotropy input to the
  arctangent node (\<open>anisotropy_chain\<close>), from there to the rotation input of the
  principled node (\<open>anisotropy_rotation\<close>), and from the separate node back to the
  texture (\<open>anisotropy_texture\<close>).
\<close>

record anisotropy_data =
  anisotropyStrength :: "const option"
  anisotropyRotation :: "const option"
  tangent :: string
  tex_socket :: NodeSocket

definition not_anisotropic :: "error + (bool \<times> anisotropy_data option)" where
  "not_anisotropic = Inr (False, None)"

definition anisotropy_texture ::
  "nat \<Rightarrow> graph \<Rightarrow> path_entry list option \<Rightarrow> string \<Rightarrow> node_id \<Rightarrow> node_id \<Rightarrow> node_id \<Rightarrow>
   error + (bool \<times> anisotropy_data option)" where
  "anisotropy_texture depth g path uv_map anisotropy_multiply_node anisotropy_rotation_node
       separate_xyz_node =
     on_value (py_index (inputs (node_of g separate_xyz_node)) 0) (\<lambda>sep_in.
     if \<not> is_linked g sep_in then not_anisotropic else
     on_value (first_link g sep_in) (\<lambda>l_ma.
     (case data (node_of g (from_node g l_ma)) of
        VECT_MATH operation \<Rightarrow>
          if operation \<noteq> ''MULTIPLY_ADD'' then not_anisotropic else
          on_value (py_index (inputs (node_of g (from_node g l_ma))) 1) (\<lambda>ma1.
          on_value (py_list (default_value (sock_of g ma1))) (\<lambda>v1.
          if v1 \<noteq> [2, 2, 1] then not_anisotropic else
          on_value (py_index (inputs (node_of g (from_node g l_ma))) 2) (\<lambda>ma2.
          on_value (py_list (default_value (sock_of g ma2))) (\<lambda>v2.
          if v2 \<noteq> [- 1, - 1, 0] then not_anisotropic else
          on_value (py_index (inputs (node_of g (from_node g l_ma))) 0) (\<lambda>ma0.
          if \<not> is_linked g ma0 then not_anisotropic else
          on_value (first_link g ma0) (\<lambda>l_tex.
          if \<not> is_tex_image (data (node_of g (from_node g l_tex))) then not_anisotropic else
          on_value (has_image_node_from_socket depth g \<lparr>socket = Some ma0, group_path = path\<rparr>)
            (\<lambda>(tex_ok, path').
          if \<not> tex_ok then not_anisotropic else
          on_value (py_index (inputs (node_of g anisotropy_multiply_node)) 1) (\<lambda>strength_in.
          on_value (get_const_from_socket depth g
                      \<lparr>socket = Some strength_in, group_path = path'\<rparr>) (\<lambda>strength.
          on_value (py_index (inputs (node_of g anisotropy_rotation_node)) 1) (\<lambda>rotation_in.
          on_value (get_const_from_socket depth g
                      \<lparr>socket = Some rotation_in, group_path = path'\<rparr>) (\<lambda>rot.
          Inr (True, Some \<lparr>anisotropyStrength = strength, anisotropyRotation = rot,
                           tangent = uv_map,
                           tex_socket = \<lparr>socket = Some ma0, group_path = path'\<rparr>\<rparr>))))))))))))
      | _ \<Rightarrow> not_anisotropic)))"

definition anisotropy_rotation ::
  "nat \<Rightarrow> graph \<Rightarrow> path_entry list option \<Rightarrow> string \<Rightarrow> node_id \<Rightarrow> node_id \<Rightarrow> node_id \<Rightarrow>
   error + (bool \<times> anisotropy_data option)" where
  "anisotropy_rotation depth g path uv_map anisotropy_multiply_node separate_xyz_node
       arctan2_node =
     on_value (py_index (outputs (node_of g arctan2_node)) 0) (\<lambda>at_out.
     if \<not> is_linked g at_out then not_anisotropic else
     on_value (first_link g at_out) (\<lambda>l_rot.
     (case data (node_of g (to_node g l_rot)) of
        MATH operation \<Rightarrow>
          if operation \<noteq> ''ADD'' then not_anisotropic else
          on_value (py_index (outputs (node_of g (to_node g l_rot))) 0) (\<lambda>rot_out.
          if \<not> is_linked g rot_out then not_anisotropic else
          on_value (first_link g rot_out) (\<lambda>l_conv.
          (case data (node_of g (to_node g l_conv)) of
             MATH operation' \<Rightarrow>
               if operation' \<noteq> ''DIVIDE'' then not_anisotropic else
               on_value (py_index (inputs (node_of g (to_node g l_conv))) 1) (\<lambda>conv_in.
               (case default_value (sock_of g conv_in) of
                  CList xs \<Rightarrow> Inl TypeError
                | CFloat two_pi \<Rightarrow>
                    if \<bar>two_pi - 6.283185\<bar> > 0.0001 then not_anisotropic else
                    on_value (py_index (outputs (node_of g (to_node g l_conv))) 0) (\<lambda>conv_out.
                    if \<not> is_linked g conv_out then not_anisotropic else
                    on_value (first_link g conv_out) (\<lambda>l_bsdf.
                    if name (sock_of g (snd l_bsdf)) \<noteq> ''Anisotropic Rotation''
                    then not_anisotropic
                    else if data (node_of g (to_node g l_bsdf)) \<noteq> BSDF_PRINCIPLED
                    then not_anisotropic
                    else anisotropy_texture depth g path uv_map anisotropy_multiply_node
                           (to_node g l_rot) separate_xyz_node))))
           | _ \<Rightarrow> not_anisotropic)))
      | _ \<Rightarrow> not_anisotropic)))"

definition anisotropy_chain ::
  "nat \<Rightarrow> graph \<Rightarrow> path_entry list option \<Rightarrow> string \<Rightarrow> sock_id \<Rightarrow>
   error + (bool \<times> anisotropy_data option)" where
  "anisotropy_chain depth g path uv_map anisotropy =
     on_value (first_link g anisotropy) (\<lambda>l_mul.
     (case data (node_of g (from_node g l_mul)) of
        MATH operation \<Rightarrow>
          if operation \<noteq> ''MULTIPLY'' then not_anisotropic else
          on_value (py_index (inputs (node_of g (from_node g l_mul))) 0) (\<lambda>mul_in.
          if \<not> is_linked g mul_in then not_anisotropic else
          on_value (first_link g mul_in) (\<lambda>l_sep.
          if data (node_of g (from_node g l_sep)) \<noteq> SEPXYZ then not_anisotropic
          else if name (sock_of g (fst l_sep)) \<noteq> ''Z'' then not_anisotropic else
          on_value (py_index (outputs (node_of g (from_node g l_sep))) 0) (\<lambda>sep_out.
          if \<not> is_linked g sep_out then not_anisotropic else
          on_value (first_link g sep_out) (\<lambda>l_at.
          (case data (node_of g (to_node g l_at)) of
             MATH operation' \<Rightarrow>
               if operation' \<noteq> ''ARCTAN2'' then not_anisotropic else
               on_value (py_index (inputs (node_of g (to_node g l_at))) 0) (\<lambda>at0.
               on_value (first_link g at0) (\<lambda>l_y.
               if name (sock_of g (fst l_y)) \<noteq> ''Y'' then not_anisotropic else
               on_value (py_index (inputs (node_of g (to_node g l_at))) 1) (\<lambda>at1.
               on_value (first_link g at1) (\<lambda>l_x.
               if name (sock_of g (fst l_x)) \<noteq> ''X'' then not_anisotropic
               else anisotropy_rotation depth g path uv_map (from_node g l_mul)
                      (from_node g l_sep) (to_node g l_at)))))
           | _ \<Rightarrow> not_anisotropic)))))
      | _ \<Rightarrow> not_anisotropic))"

definition detect_anisotropy_nodes ::
  "nat \<Rightarrow> nat \<Rightarrow> graph \<Rightarrow> NodeSocket \<Rightarrow> NodeSocket \<Rightarrow> NodeSocket \<Rightarrow>
   (error + (bool \<times> anisotropy_data option)) option" where
  "detect_anisotropy_nodes fuel depth g anisotropy_socket anisotropy_rotation_socket
       anisotropy_tangent_socket =
     (case (socket anisotropy_socket, socket anisotropy_rotation_socket,
            socket anisotropy_tangent_socket) of
        (Some a, Some r, Some t) \<Rightarrow>
          map_option
            (\<lambda>res. on_value res (\<lambda>tangent_node.
               case tangent_node of
                 None \<Rightarrow> not_anisotropic
               | Some (tn, tpath) \<Rightarrow>
                   (case data (node_of g tn) of
                      TANGENT direction_type uv_map \<Rightarrow>
                        if direction_type \<noteq> ''UV_MAP'' then not_anisotropic
                        else if \<not> is_linked g a then not_anisotropic
                        else if \<not> is_linked g r then not_anisotropic
                        else if \<not> is_linked g t then not_anisotropic
                        else anisotropy_chain depth g (group_path anisotropy_socket) uv_map a
                    | _ \<Rightarrow> not_anisotropic)))
            (previous_node fuel g anisotropy_tangent_socket)
      | _ \<Rightarrow> Some not_anisotropic)"

section \<open>Graph shapes the properties speak about\<close>

text \<open>
  The multiply idiom of \<^verbatim>\<open>get_factor\<close>: a mix node in RGBA mode blending by MULTIPLY behind
  a colour input, a math node with operation MULTIPLY behind a scalar input.
\<close>

definition is_multiply_idiom :: "string \<Rightarrow> node_data \<Rightarrow> bool" where
  "is_multiply_idiom ty d =
     ((ty = ''RGBA'' \<and> d = MIX ''RGBA'' ''MULTIPLY'')
      \<or> (ty = ''VALUE'' \<and> d = MATH ''MULTIPLY''))"

text \<open>
  \<open>reroute_chain g s rs p\<close>: the input socket \<open>s\<close> is fed through the reroute nodes \<open>rs\<close>
  (nearest first) by the output socket \<open>p\<close>. With \<open>rs = []\<close> the first link of \<open>s\<close> comes
  straight from \<open>p\<close>.
\<close>

fun reroute_chain :: "graph \<Rightarrow> sock_id \<Rightarrow> node_id list \<Rightarrow> sock_id \<Rightarrow> bool" where
  "reroute_chain g s [] p =
     (case socket_links g s of [] \<Rightarrow> False | link # _ \<Rightarrow> fst link = p)"
| "reroute_chain g s (r # rs) p =
     (case socket_links g s of
        [] \<Rightarrow> False
      | link # _ \<Rightarrow>
          from_node g link = r \<and> data (node_of g r) = REROUTE \<and>
          (case inputs (node_of g r) of [] \<Rightarrow> False | i # _ \<Rightarrow> reroute_chain g i rs p))"

text \<open>The cursor right after it followed a link back to the output socket \<open>p\<close>.\<close>

definition arrive :: "graph \<Rightarrow> NodeNav \<Rightarrow> sock_id \<Rightarrow> NodeNav" where
  "arrive g nav p =
     \<lparr>node = sock_node (sock_of g p), out_socket = Some p, in_socket = None,
      stack = stack nav, moved = True\<rparr>"

text \<open>A node at which \<^verbatim>\<open>move_back\<close> stops: no reroute, group or group input.\<close>

definition plain_node :: "node_data \<Rightarrow> bool" where
  "plain_node d =
     (case d of REROUTE \<Rightarrow> False | GROUP t \<Rightarrow> False | GROUP_INPUT \<Rightarrow> False | _ \<Rightarrow> True)"

subsection \<open>Example graphs\<close>

definition store :: "'a list \<Rightarrow> 'a \<Rightarrow> nat \<Rightarrow> 'a" where
  "store xs d i = (if i < length xs then xs ! i else d)"

definition input_socket :: "node_id \<Rightarrow> string \<Rightarrow> string \<Rightarrow> const \<Rightarrow> socket" where
  "input_socket n nm ty d =
     \<lparr>sock_node = n, is_output = False, name = nm, sock_identifier = nm, sock_type = ty,
      default_value = d, enabled = True\<rparr>"

definition output_socket :: "node_id \<Rightarrow> string \<Rightarrow> string \<Rightarrow> const \<Rightarrow> socket" where
  "output_socket n nm ty d =
     \<lparr>sock_node = n, is_output = True, name = nm, sock_identifier = nm, sock_type = ty,
      default_value = d, enabled = True\<rparr>"

definition no_node :: shader_node where
  "no_node = \<lparr>data = OTHER [], inputs = [], outputs = []\<rparr>"

definition no_socket :: socket where
  "no_socket = input_socket 0 [] [] (CFloat 0)"

definition cursor_at :: "node_id \<Rightarrow> sock_id \<Rightarrow> NodeNav" where
  "cursor_at n s =
     \<lparr>node = n, out_socket = None, in_socket = Some s, stack = [(Material, None)],
      moved = False\<rparr>"

text \<open>
  A principled node (0) with Base Color and Metallic unlinked, Roughness fed by a value
  node (1), Alpha fed by a multiply node (2) of the constant 0.5 and the alpha of an image
  texture (3), and Emission fed by the colour of the texture.
\<close>

definition g_factors :: graph where
  "g_factors =
     \<lparr>node_of = store
        [\<lparr>data = BSDF_PRINCIPLED, inputs = [0, 1, 2, 3, 4], outputs = []\<rparr>,
         \<lparr>data = VALUE, inputs = [], outputs = [5]\<rparr>,
         \<lparr>data = MATH ''MULTIPLY'', inputs = [6, 7], outputs = [8]\<rparr>,
         \<lparr>data = TEX_IMAGE True, inputs = [9], outputs = [10, 11]\<rparr>]
        no_node,
      sock_of = store
        [input_socket 0 ''Base Color'' ''RGBA'' (CList [0.8, 0.8, 0.8, 1]),
         input_socket 0 ''Metallic'' ''VALUE'' (CFloat 0.25),
         input_socket 0 ''Roughness'' ''VALUE'' (CFloat 0.5),
         input_socket 0 ''Alpha'' ''VALUE'' (CFloat 1),
         input_socket 0 ''Emission Color'' ''RGBA'' (CList [0, 0, 0, 1]),
         output_socket 1 ''Value'' ''VALUE'' (CFloat 0.7),
         input_socket 2 ''Value'' ''VALUE'' (CFloat 0.5),
         input_socket 2 ''Value'' ''VALUE'' (CFloat 0.5),
         output_socket 2 ''Value'' ''VALUE'' (CFloat 0),
         input_socket 3 ''Vector'' ''VECTOR'' (CList [0, 0, 0]),
         output_socket 3 ''Color'' ''RGBA'' (CList [0, 0, 0, 1]),
         output_socket 3 ''Alpha'' ''VALUE'' (CFloat 0)]
        no_socket,
      links = [(5, 2), (8, 3), (11, 7), (10, 4)],
      tree_nodes = (\<lambda>t. [])\<rparr>"

text \<open>
  An image texture (3) whose colour reaches Base Color of the principled node (0) through
  the reroutes 2 and 1, and Emission through a direct link.
\<close>

definition g_reroute :: graph where
  "g_reroute =
     \<lparr>node_of = store
        [\<lparr>data = BSDF_PRINCIPLED, inputs = [0, 1], outputs = []\<rparr>,
         \<lparr>data = REROUTE, inputs = [2], outputs = [3]\<rparr>,
         \<lparr>data = REROUTE, inputs = [4], outputs = [5]\<rparr>,
         \<lparr>data = TEX_IMAGE True, inputs = [6], outputs = [7, 8]\<rparr>]
        no_node,
      sock_of = store
        [input_socket 0 ''Base Color'' ''RGBA'' (CList [0.8, 0.8, 0.8, 1]),
         input_socket 0 ''Emission Color'' ''RGBA'' (CList [0, 0, 0, 1]),
         input_socket 1 ''Input'' ''RGBA'' (CList [0, 0, 0, 1]),
         output_socket 1 ''Output'' ''RGBA'' (CList [0, 0, 0, 1]),
         input_socket 2 ''Input'' ''RGBA'' (CList [0, 0, 0, 1]),
         output_socket 2 ''Output'' ''RGBA'' (CList [0, 0, 0, 1]),
         input_socket 3 ''Vector'' ''VECTOR'' (CList [0, 0, 0]),
         output_socket 3 ''Color'' ''RGBA'' (CList [0, 0, 0, 1]),
         output_socket 3 ''Alpha'' ''VALUE'' (CFloat 0)]
        no_socket,
      links = [(7, 4), (5, 2), (3, 0), (7, 1)],
      tree_nodes = (\<lambda>t. [])\<rparr>"

text \<open>
  Alpha of the principled node (0) fed by a multiply node (1) of the alpha of a colour
  attribute node ``Col'' (2) and the alpha of an image texture (3).
\<close>

definition g_alpha_attrib :: graph where
  "g_alpha_attrib =
     \<lparr>node_of = store
        [\<lparr>data = BSDF_PRINCIPLED, inputs = [0], outputs = []\<rparr>,
         \<lparr>data = MATH ''MULTIPLY'', inputs = [1, 2], outputs = [3]\<rparr>,
         \<lparr>data = VERTEX_COLOR ''Col'', inputs = [], outputs = [4, 5]\<rparr>,
         \<lparr>data = TEX_IMAGE True, inputs = [6], outputs = [7, 8]\<rparr>]
        no_node,
      sock_of = store
        [input_socket 0 ''Alpha'' ''VALUE'' (CFloat 1),
         input_socket 1 ''Value'' ''VALUE'' (CFloat 0.5),
         input_socket 1 ''Value'' ''VALUE'' (CFloat 0.5),
         output_socket 1 ''Value'' ''VALUE'' (CFloat 0),
         output_socket 2 ''Color'' ''RGBA'' (CList [0, 0, 0, 1]),
         output_socket 2 ''Alpha'' ''VALUE'' (CFloat 0),
         input_socket 3 ''Vector'' ''VECTOR'' (CList [0, 0, 0]),
         output_socket 3 ''Color'' ''RGBA'' (CList [0, 0, 0, 1]),
         output_socket 3 ''Alpha'' ''VALUE'' (CFloat 0)]
        no_socket,
      links = [(3, 0), (5, 1), (8, 2)],
      tree_nodes = (\<lambda>t. [])\<rparr>"

text \<open>
  Four alpha inputs on node 0: socket 0 unlinked with default 1, socket 1 unlinked with
  default 0.4, socket 2 fed by a round node (1) over the alpha of a texture (4), socket 3
  fed by a subtract node (2) computing 1 minus a less-than node (3) that compares the
  texture's alpha with 0.3.
\<close>

definition g_alpha :: graph where
  "g_alpha =
     \<lparr>node_of = store
        [\<lparr>data = BSDF_PRINCIPLED, inputs = [0, 1, 2, 3], outputs = []\<rparr>,
         \<lparr>data = MATH ''ROUND'', inputs = [4, 5], outputs = [6]\<rparr>,
         \<lparr>data = MATH ''SUBTRACT'', inputs = [7, 8], outputs = [9]\<rparr>,
         \<lparr>data = MATH ''LESS_THAN'', inputs = [10, 11], outputs = [12]\<rparr>,
         \<lparr>data = TEX_IMAGE True, inputs = [13], outputs = [14, 15]\<rparr>]
        no_node,
      sock_of = store
        [input_socket 0 ''Alpha'' ''VALUE'' (CFloat 1),
         input_socket 0 ''Alpha'' ''VALUE'' (CFloat 0.4),
         input_socket 0 ''Alpha'' ''VALUE'' (CFloat 1),
         input_socket 0 ''Alpha'' ''VALUE'' (CFloat 1),
         input_socket 1 ''Value'' ''VALUE'' (CFloat 0.5),
         input_socket 1 ''Value'' ''VALUE'' (CFloat 0.5),
         output_socket 1 ''Value'' ''VALUE'' (CFloat 0),
         input_socket 2 ''Value'' ''VALUE'' (CFloat 1),
         input_socket 2 ''Value'' ''VALUE'' (CFloat 0.5),
         output_socket 2 ''Value'' ''VALUE'' (CFloat 0),
         input_socket 3 ''Value'' ''VALUE'' (CFloat 0.5),
         input_socket 3 ''Value'' ''VALUE'' (CFloat 0.3),
         output_socket 3 ''Value'' ''VALUE'' (CFloat 0),
         input_socket 4 ''Vector'' ''VECTOR'' (CList [0, 0, 0]),
         output_socket 4 ''Color'' ''RGBA'' (CList [0, 0, 0, 1]),
         output_socket 4 ''Alpha'' ''VALUE'' (CFloat 0)]
        no_socket,
      links = [(6, 2), (15, 4), (9, 3), (12, 8), (15, 10)],
      tree_nodes = (\<lambda>t. [])\<rparr>"


text \<open>The dictionary as \<^verbatim>\<open>gather_alpha_info\<close> creates it, and after a clip was found.\<close>

definition empty_info :: alpha_info where
  "empty_info = \<lparr>alphaMode = None, alphaCutoff = None, alphaFactor = None,
                  alphaColorAttrib = None, alphaColorAttr = None\<rparr>"

definition mask_info :: "const \<Rightarrow> alpha_info" where
  "mask_info cutoff = \<lparr>alphaMode = Some ''MASK'', alphaCutoff = Some cutoff,
     alphaFactor = None, alphaColorAttrib = None, alphaColorAttr = None\<rparr>"

text \<open>
  Constants that come from value nodes. On the principled node (0): input 0 is fed by a
  round node (1) over the product (2) of the alpha of a texture (3) and a value node (4)
  holding 0.5; input 1 is fed by that product directly; input 2 is fed by a value node (5)
  holding 1.
\<close>

definition g_value_factor :: graph where
  "g_value_factor =
     \<lparr>node_of = store
        [\<lparr>data = BSDF_PRINCIPLED, inputs = [0, 1, 2], outputs = []\<rparr>,
         \<lparr>data = MATH ''ROUND'', inputs = [3], outputs = [4]\<rparr>,
         \<lparr>data = MATH ''MULTIPLY'', inputs = [5, 6], outputs = [7]\<rparr>,
         \<lparr>data = TEX_IMAGE True, inputs = [8], outputs = [9, 10]\<rparr>,
         \<lparr>data = VALUE, inputs = [], outputs = [11]\<rparr>,
         \<lparr>data = VALUE, inputs = [], outputs = [12]\<rparr>]
        no_node,
      sock_of = store
        [input_socket 0 ''Alpha'' ''VALUE'' (CFloat 1),
         input_socket 0 ''Roughness'' ''VALUE'' (CFloat 0.5),
         input_socket 0 ''Alpha'' ''VALUE'' (CFloat 1),
         input_socket 1 ''Value'' ''VALUE'' (CFloat 0.5),
         output_socket 1 ''Value'' ''VALUE'' (CFloat 0),
         input_socket 2 ''Value'' ''VALUE'' (CFloat 0.5),
         input_socket 2 ''Value'' ''VALUE'' (CFloat 0.5),
         output_socket 2 ''Value'' ''VALUE'' (CFloat 0),
         input_socket 3 ''Vector'' ''VECTOR'' (CList [0, 0, 0]),
         output_socket 3 ''Color'' ''RGBA'' (CList [0, 0, 0, 1]),
         output_socket 3 ''Alpha'' ''VALUE'' (CFloat 0),
         output_socket 4 ''Value'' ''VALUE'' (CFloat 0.5),
         output_socket 5 ''Value'' ''VALUE'' (CFloat 1)]
        no_socket,
      links = [(4, 0), (7, 3), (10, 5), (11, 6), (7, 1), (12, 2)],
      tree_nodes = (\<lambda>t. [])\<rparr>"

text \<open>
  A host that finds no factor and no image behind any socket, and a principled node whose
  specular strength (socket 0) and specular tint (socket 1) are unlinked.
\<close>

definition no_host :: blender_get where
  "no_host = \<lparr>get_factor_from_socket_host = (\<lambda>s k. PNone),
              has_image_node_from_socket_host = (\<lambda>s. False),
              gather_texture_info = (\<lambda>s. (0, 0))\<rparr>"

definition g_specular :: "real \<Rightarrow> real list \<Rightarrow> graph" where
  "g_specular v c =
     \<lparr>node_of = store [\<lparr>data = BSDF_PRINCIPLED, inputs = [0, 1], outputs = []\<rparr>] no_node,
      sock_of = store
        [input_socket 0 ''Specular IOR Level'' ''VALUE'' (CFloat v),
         input_socket 0 ''Specular Tint'' ''RGBA'' (CList c)] no_socket,
      links = [],
      tree_nodes = (\<lambda>t. [])\<rparr>"



text \<open>
  The anisotropy setup the detector looks for. On the principled node (0): Anisotropic
  (socket 0) fed by a multiply node (2) of the Z output of a separate node (3) and the
  strength 0.7; Anisotropic Rotation (1) fed by a divide node (6) by 6.283185 of an add
  node (5) of the rotation 0.25 and an arctangent node (4) over the Y and X outputs of the
  separate node; Tangent (2) fed by a tangent node (1); the separate node fed by a
  multiply-add node (7) over the colour of an image texture (8).
\<close>

definition anisotropy_links :: "(sock_id \<times> sock_id) list" where
  "anisotropy_links =
     [(3, 2), (6, 0), (10, 4), (8, 12), (9, 11), (13, 14), (16, 17), (19, 1), (23, 7), (25, 20)]"

definition g_anisotropy :: "(sock_id \<times> sock_id) list \<Rightarrow> graph" where
  "g_anisotropy ls =
     \<lparr>node_of = store
        [\<lparr>data = BSDF_PRINCIPLED, inputs = [0, 1, 2], outputs = []\<rparr>,
         \<lparr>data = TANGENT ''UV_MAP'' ''UVMap'', inputs = [], outputs = [3]\<rparr>,
         \<lparr>data = MATH ''MULTIPLY'', inputs = [4, 5], outputs = [6]\<rparr>,
         \<lparr>data = SEPXYZ, inputs = [7], outputs = [8, 9, 10]\<rparr>,
         \<lparr>data = MATH ''ARCTAN2'', inputs = [11, 12], outputs = [13]\<rparr>,
         \<lparr>data = MATH ''ADD'', inputs = [14, 15], outputs = [16]\<rparr>,
         \<lparr>data = MATH ''DIVIDE'', inputs = [17, 18], outputs = [19]\<rparr>,
         \<lparr>data = VECT_MATH ''MULTIPLY_ADD'', inputs = [20, 21, 22], outputs = [23]\<rparr>,
         \<lparr>data = TEX_IMAGE True, inputs = [24], outputs = [25, 26]\<rparr>]
        no_node,
      sock_of = store
        [input_socket 0 ''Anisotropic'' ''VALUE'' (CFloat 0),
         input_socket 0 ''Anisotropic Rotation'' ''VALUE'' (CFloat 0),
         input_socket 0 ''Tangent'' ''VECTOR'' (CList [0, 0, 0]),
         output_socket 1 ''Tangent'' ''VECTOR'' (CList [0, 0, 0]),
         input_socket 2 ''Value'' ''VALUE'' (CFloat 0.5),
         input_socket 2 ''Value'' ''VALUE'' (CFloat 0.7),
         output_socket 2 ''Value'' ''VALUE'' (CFloat 0),
         input_socket 3 ''Vector'' ''VECTOR'' (CList [0, 0, 0]),
         output_socket 3 ''X'' ''VALUE'' (CFloat 0),
         output_socket 3 ''Y'' ''VALUE'' (CFloat 0),
         output_socket 3 ''Z'' ''VALUE'' (CFloat 0),
         input_socket 4 ''Value'' ''VALUE'' (CFloat 0.5),
         input_socket 4 ''Value'' ''VALUE'' (CFloat 0.5),
         output_socket 4 ''Value'' ''VALUE'' (CFloat 0),
         input_socket 5 ''Value'' ''VALUE'' (CFloat 0.5),
         input_socket 5 ''Value'' ''VALUE'' (CFloat 0.25),
         output_socket 5 ''Value'' ''VALUE'' (CFloat 0),
         input_socket 6 ''Value'' ''VALUE'' (CFloat 0.5),
         input_socket 6 ''Value'' ''VALUE'' (CFloat 6.283185),
         output_socket 6 ''Value'' ''VALUE'' (CFloat 0),
         input_socket 7 ''Vector'' ''VECTOR'' (CList [0, 0, 0]),
         input_socket 7 ''Vector'' ''VECTOR'' (CList [2, 2, 1]),
         input_socket 7 ''Vector'' ''VECTOR'' (CList [- 1, - 1, 0]),
         output_socket 7 ''Vector'' ''VECTOR'' (CList [0, 0, 0]),
         input_socket 8 ''Vector'' ''VECTOR'' (CList [0, 0, 0]),
         output_socket 8 ''Color'' ''RGBA'' (CList [0, 0, 0, 1]),
         output_socket 8 ''Alpha'' ''VALUE'' (CFloat 0)]
        no_socket,
      links = ls,
      tree_nodes = (\<lambda>t. [])\<rparr>"

definition material_socket :: "sock_id \<Rightarrow> NodeSocket" where
  "material_socket s = \<lparr>socket = Some s, group_path = Some [Material]\<rparr>"

section \<open>Properties of the cursor and of the constant extractor\<close>

lemma select_input_socket_SelNone: "select_input_socket g nav SelNone = Inr nav"
  by (simp add: select_input_socket_def)

lemma select_input_socket_moved:
  "select_input_socket g nav in_soc = Inr nav1 \<Longrightarrow>
     select_input_socket g (nav\<lparr>moved := m\<rparr>) in_soc = Inr (nav1\<lparr>moved := m\<rparr>)"
  by (auto simp: select_input_socket_def split: selector.splits if_splits sum.splits option.splits)

lemma move_back_moved_linked:
  "move_back depth g nav SelNone = Inr nav' \<Longrightarrow> moved nav' \<Longrightarrow>
     \<exists>s. in_socket nav = Some s \<and> is_linked g s"
  by (cases depth)
     (auto simp: select_input_socket_def is_linked_def split: option.splits list.splits)

lemma peek_back_moved_linked:
  "peek_back depth g nav SelNone = Inr nav' \<Longrightarrow> moved nav' \<Longrightarrow>
     \<exists>s. in_socket nav = Some s \<and> is_linked g s"
  by (simp add: peek_back_def select_input_socket_SelNone move_back_moved_linked)

lemma get_constant_value_node_raises:
  assumes "select_input_socket g nav in_soc = Inr self" "in_socket self = Some s"
    and "sock_type (sock_of g s) = ''VALUE''"
    and "peek_back depth g self SelNone = Inr nav'" "moved nav'"
    and "data (node_of g (node nav')) = VALUE"
  shows "get_constant depth g nav in_soc = Inl AttributeError"
proof -
  from peek_back_moved_linked[OF assms(4,5)] assms(2) have "is_linked g s" by auto
  with assms show ?thesis by (simp add: get_constant_def)
qed

lemma get_constant_unlinked_value:
  assumes "select_input_socket g nav in_soc = Inr self" "in_socket self = Some s"
    "\<not> is_linked g s" "sock_type (sock_of g s) = ''VALUE''"
  shows "get_constant depth g nav in_soc = Inr (self, Some (default_value (sock_of g s)))"
  using assms by (simp add: get_constant_def)

lemma get_constant_unlinked_rgba:
  assumes "select_input_socket g nav in_soc = Inr self" "in_socket self = Some s"
    "\<not> is_linked g s" "sock_type (sock_of g s) = ''RGBA''"
    "default_value (sock_of g s) = CList rgba"
  shows "get_constant depth g nav in_soc = Inr (self, Some (CList (take 3 rgba)))"
  using assms by (simp add: get_constant_def)

lemma get_constant_not_literal:
  assumes "select_input_socket g nav in_soc = Inr self" "in_socket self = Some s"
    "is_linked g s" "peek_back depth g self SelNone = Inr nav'"
    "data (node_of g (node nav')) \<noteq> RGB" "data (node_of g (node nav')) \<noteq> VALUE"
  shows "get_constant depth g nav in_soc = Inr (self, None)"
  using assms by (simp add: get_constant_def)

lemma get_factor_not_idiom:
  assumes "select_input_socket g nav in_soc = Inr self" "in_socket self = Some s"
    "is_linked g s" "peek_back depth g self SelNone = Inr nav'"
    "data (node_of g (node nav')) \<noteq> RGB" "data (node_of g (node nav')) \<noteq> VALUE"
    "\<not> is_multiply_idiom (sock_type (sock_of g s)) (data (node_of g (node nav')))"
  shows "get_factor depth g nav in_soc = Inr (self, None)"
proof -
  have c: "get_constant depth g self SelNone = Inr (self, None)"
    using assms(2-6) by (simp add: get_constant_def select_input_socket_SelNone)
  show ?thesis
    using assms c
    by (auto simp: get_factor_def is_multiply_idiom_def split: node_data.splits)
qed

subsection \<open>Constants behind a value node\<close>

text \<open>
  Claim C2: for a cursor whose selected input socket is scalar (VALUE) and connected to a
  bare value node, \<^verbatim>\<open>get_constant\<close> returns the node's literal and does not raise.
  The code does not: on the Roughness input of \<open>g_factors\<close>, fed by a value node, it
  raises AttributeError, because it reads \<^verbatim>\<open>nav.node.out_socket\<close> where the colour branch
  reads \<^verbatim>\<open>nav.out_socket\<close>. The lemma \<open>get_constant_value_node_raises\<close> shows that this
  happens on every such input.
\<close>

theorem get_constant_value_node_attribute_error:
  "get_constant 10 g_factors (cursor_at 0 2) SelNone = Inl AttributeError"
  by code_simp

subsection \<open>Defaults of unlinked sockets, and producers that are no literal\<close>

text \<open>
  Claim C5: for an unconnected scalar or colour input socket \<^verbatim>\<open>get_constant\<close> returns the
  socket's default value, without the alpha channel for a colour; for a connected input
  whose producer (the node \<^verbatim>\<open>peek_back\<close> lands on) is neither a bare literal node nor,
  for \<^verbatim>\<open>get_factor\<close>, the multiply idiom, \<^verbatim>\<open>get_constant\<close> and \<^verbatim>\<open>get_factor\<close>
  return None.
\<close>

theorem get_constant_default_or_none:
  "(select_input_socket g nav in_soc = Inr self \<and> in_socket self = Some s
      \<and> \<not> is_linked g s \<and> sock_type (sock_of g s) = ''VALUE''
      \<longrightarrow> get_constant depth g nav in_soc = Inr (self, Some (default_value (sock_of g s))))
   \<and> (select_input_socket g nav in_soc = Inr self \<and> in_socket self = Some s
      \<and> \<not> is_linked g s \<and> sock_type (sock_of g s) = ''RGBA''
      \<and> default_value (sock_of g s) = CList rgba
      \<longrightarrow> get_constant depth g nav in_soc = Inr (self, Some (CList (take 3 rgba))))
   \<and> (select_input_socket g nav in_soc = Inr self \<and> in_socket self = Some s
      \<and> is_linked g s \<and> peek_back depth g self SelNone = Inr nav'
      \<and> data (node_of g (node nav')) \<noteq> RGB \<and> data (node_of g (node nav')) \<noteq> VALUE
      \<longrightarrow> get_constant depth g nav in_soc = Inr (self, None)
          \<and> (\<not> is_multiply_idiom (sock_type (sock_of g s)) (data (node_of g (node nav')))
               \<longrightarrow> get_factor depth g nav in_soc = Inr (self, None)))"
  using get_constant_unlinked_value[of g nav in_soc self s depth]
    get_constant_unlinked_rgba[of g nav in_soc self s rgba depth]
    get_constant_not_literal[of g nav in_soc self s depth nav']
    get_factor_not_idiom[of g nav in_soc self s depth nav']
  by blast

theorem get_constant_default_or_none_witness:
  "get_constant 10 g_factors (cursor_at 0 0) (SelInt 1) = Inr (cursor_at 0 1, Some (CFloat 0.25))
   \<and> get_constant 10 g_factors (cursor_at 0 1) (SelStr ''Base Color'')
       = Inr (cursor_at 0 0, Some (CList [0.8, 0.8, 0.8]))
   \<and> get_constant 10 g_factors (cursor_at 0 4) SelNone = Inr (cursor_at 0 4, None)
   \<and> get_factor 10 g_factors (cursor_at 0 4) SelNone = Inr (cursor_at 0 4, None)"
proof -
  have a: "select_input_socket g_factors (cursor_at 0 0) (SelInt 1) = Inr (cursor_at 0 1)
      \<and> in_socket (cursor_at 0 1) = Some 1 \<and> \<not> is_linked g_factors 1
      \<and> sock_type (sock_of g_factors 1) = ''VALUE''
      \<and> default_value (sock_of g_factors 1) = CFloat 0.25"
    by code_simp
  have b: "select_input_socket g_factors (cursor_at 0 1) (SelStr ''Base Color'')
        = Inr (cursor_at 0 0)
      \<and> in_socket (cursor_at 0 0) = Some 0 \<and> \<not> is_linked g_factors 0
      \<and> sock_type (sock_of g_factors 0) = ''RGBA''
      \<and> default_value (sock_of g_factors 0) = CList [0.8, 0.8, 0.8, 1]"
    by code_simp
  have c: "select_input_socket g_factors (cursor_at 0 4) SelNone = Inr (cursor_at 0 4)
      \<and> in_socket (cursor_at 0 4) = Some 4 \<and> is_linked g_factors 4
      \<and> peek_back 10 g_factors (cursor_at 0 4) SelNone
          = Inr (arrive g_factors (cursor_at 0 4) 10)
      \<and> data (node_of g_factors (node (arrive g_factors (cursor_at 0 4) 10))) = TEX_IMAGE True
      \<and> sock_type (sock_of g_factors 4) = ''RGBA''"
    by code_simp
  show ?thesis
    using a b c
      get_constant_default_or_none[of g_factors "cursor_at 0 0" "SelInt 1" "cursor_at 0 1" 1 10]
      get_constant_default_or_none[of g_factors "cursor_at 0 1" "SelStr ''Base Color''"
        "cursor_at 0 0" 0 10 "[0.8, 0.8, 0.8, 1]"]
      get_constant_default_or_none[of g_factors "cursor_at 0 4" SelNone "cursor_at 0 4" 4 10 _
        "arrive g_factors (cursor_at 0 4) 10"]
    by (simp add: is_multiply_idiom_def)
qed

subsection \<open>The multiply idiom in \<^verbatim>\<open>get_factor\<close>\<close>

lemma get_factor_multiply:
  assumes sel: "select_input_socket g nav in_soc = Inr self" and ins: "in_socket self = Some s"
    and pk: "peek_back depth g self SelNone = Inr nav'" and mv: "moved nav'"
    and idiom: "(sock_type (sock_of g s) = ''RGBA''
                 \<and> data (node_of g (node nav')) = MIX ''RGBA'' ''MULTIPLY''
                 \<and> a = SelStr ''#A_Color'' \<and> b = SelStr ''#B_Color'')
              \<or> (sock_type (sock_of g s) = ''VALUE''
                 \<and> data (node_of g (node nav')) = MATH ''MULTIPLY''
                 \<and> a = SelInt 0 \<and> b = SelInt 1)"
    and x1: "get_constant depth g nav' a = Inr (nav1, x1)"
    and x2: "get_constant depth g nav1 b = Inr (nav2, x2)"
  shows "get_factor depth g nav in_soc =
           Inr (self, if x1 \<noteq> None \<and> x2 = None then x1
                      else if x2 \<noteq> None \<and> x1 = None then x2 else None)"
proof -
  from peek_back_moved_linked[OF pk mv] ins have lk: "is_linked g s" by auto
  have c: "get_constant depth g self SelNone = Inr (self, None)"
    using ins lk pk idiom
    by (intro get_constant_not_literal[where s = s and nav' = nav'])
       (auto simp: select_input_socket_SelNone)
  show ?thesis
    using sel ins c pk mv idiom x1 x2
    by (auto simp: get_factor_def)
qed

text \<open>
  When both operand reads of the idiom return, \<^verbatim>\<open>get_factor\<close> returns the constant if
  exactly one operand is a constant, and None if neither or both are.
\<close>

lemma get_factor_multiply_when_reads_return:
  "select_input_socket g nav in_soc = Inr self \<and> in_socket self = Some s
   \<and> peek_back depth g self SelNone = Inr nav' \<and> moved nav'
   \<and> ((sock_type (sock_of g s) = ''RGBA''
          \<and> data (node_of g (node nav')) = MIX ''RGBA'' ''MULTIPLY''
          \<and> a = SelStr ''#A_Color'' \<and> b = SelStr ''#B_Color'')
       \<or> (sock_type (sock_of g s) = ''VALUE''
          \<and> data (node_of g (node nav')) = MATH ''MULTIPLY''
          \<and> a = SelInt 0 \<and> b = SelInt 1))
   \<and> get_constant depth g nav' a = Inr (nav1, x1)
   \<and> get_constant depth g nav1 b = Inr (nav2, x2)
   \<longrightarrow> get_factor depth g nav in_soc =
         Inr (self, if x1 \<noteq> None \<and> x2 = None then x1
                    else if x2 \<noteq> None \<and> x1 = None then x2 else None)"
  using get_factor_multiply[of g nav in_soc self s depth nav' a b nav1 x1 nav2 x2] by blast

lemma get_factor_multiply_on_g_factors:
  "get_factor 10 g_factors (cursor_at 0 0) (SelStr ''Alpha'')
     = Inr (cursor_at 0 3, Some (CFloat 0.5))"
proof -
  have h: "select_input_socket g_factors (cursor_at 0 0) (SelStr ''Alpha'') = Inr (cursor_at 0 3)
     \<and> in_socket (cursor_at 0 3) = Some 3
     \<and> peek_back 10 g_factors (cursor_at 0 3) SelNone = Inr (arrive g_factors (cursor_at 0 3) 8)
     \<and> moved (arrive g_factors (cursor_at 0 3) 8)
     \<and> sock_type (sock_of g_factors 3) = ''VALUE''
     \<and> data (node_of g_factors (node (arrive g_factors (cursor_at 0 3) 8))) = MATH ''MULTIPLY''
     \<and> get_constant 10 g_factors (arrive g_factors (cursor_at 0 3) 8) (SelInt 0)
         = Inr ((arrive g_factors (cursor_at 0 3) 8)\<lparr>in_socket := Some 6\<rparr>, Some (CFloat 0.5))
     \<and> get_constant 10 g_factors ((arrive g_factors (cursor_at 0 3) 8)\<lparr>in_socket := Some 6\<rparr>)
           (SelInt 1)
         = Inr ((arrive g_factors (cursor_at 0 3) 8)\<lparr>in_socket := Some 7\<rparr>, None)"
    by code_simp
  show ?thesis
    using h get_factor_multiply_when_reads_return[of g_factors "cursor_at 0 0" "SelStr ''Alpha''"
        "cursor_at 0 3" 3 10 "arrive g_factors (cursor_at 0 3) 8" "SelInt 0" "SelInt 1"
        "(arrive g_factors (cursor_at 0 3) 8)\<lparr>in_socket := Some 6\<rparr>" "Some (CFloat 0.5)"
        "(arrive g_factors (cursor_at 0 3) 8)\<lparr>in_socket := Some 7\<rparr>" None]
    by simp
qed


text \<open>
  Claim C6: when \<^verbatim>\<open>get_factor\<close> finds the multiply idiom behind a connected input (a
  mix node multiplying colours for a colour input, a math node multiplying for a scalar
  input), it reads both operands with \<^verbatim>\<open>get_constant\<close> and returns the constant when
  exactly one operand is a constant, and None when neither or both are. The code does
  not when the constant operand is a value node: on the Roughness input of
  \<open>g_value_factor\<close>, fed by texture alpha times a value node, the idiom is found, the
  first operand reads as None, and the read of the second raises AttributeError (the
  defect of \<open>get_constant_value_node_raises\<close>), so \<^verbatim>\<open>get_factor\<close> raises where the
  constant 0.5 is due.
\<close>

theorem get_factor_value_node_operand_raises:
  "get_factor 10 g_value_factor (cursor_at 0 1) SelNone = Inl AttributeError
   \<and> (\<exists>nav1. get_constant 10 g_value_factor (arrive g_value_factor (cursor_at 0 1) 7) (SelInt 0)
                = Inr (nav1, None)
        \<and> get_constant 10 g_value_factor nav1 (SelInt 1) = Inl AttributeError)"
proof -
  have "get_constant 10 g_value_factor (arrive g_value_factor (cursor_at 0 1) 7) (SelInt 0)
          = Inr ((arrive g_value_factor (cursor_at 0 1) 7)\<lparr>in_socket := Some 5\<rparr>, None)"
    by code_simp
  moreover have "get_constant 10 g_value_factor
          ((arrive g_value_factor (cursor_at 0 1) 7)\<lparr>in_socket := Some 5\<rparr>) (SelInt 1)
          = Inl AttributeError"
    by code_simp
  moreover have "get_factor 10 g_value_factor (cursor_at 0 1) SelNone = Inl AttributeError"
    by code_simp
  ultimately show ?thesis by blast
qed

subsection \<open>Reroutes are transparent\<close>

lemma move_back_select:
  assumes "select_input_socket g nav in_soc = Inr nav1"
  shows "move_back depth g nav in_soc = move_back depth g nav1 SelNone"
proof (cases depth)
  case 0
  then show ?thesis by simp
next
  case (Suc d)
  show ?thesis
    unfolding Suc
    by (simp only: move_back.simps select_input_socket_moved[OF assms]
          select_input_socket_SelNone)
qed

lemma move_back_linked:
  assumes "socket_links g s = link # rest" "in_socket nav = Some s"
  shows "move_back (Suc depth) g nav SelNone =
     (case data (node_of g (sock_node (sock_of g (fst link)))) of
        REROUTE \<Rightarrow> move_back depth g (arrive g nav (fst link)) (SelInt 0)
      | GROUP t \<Rightarrow>
          (case descend g (arrive g nav (fst link)) of
             Inl e \<Rightarrow> Inl e
           | Inr nav3 \<Rightarrow> move_back depth g nav3 SelNone)
      | GROUP_INPUT \<Rightarrow>
          (case ascend g (arrive g nav (fst link)) of
             Inl e \<Rightarrow> Inl e
           | Inr nav3 \<Rightarrow> move_back depth g nav3 SelNone)
      | _ \<Rightarrow> Inr (arrive g nav (fst link)))"
proof -
  have eq: "nav\<lparr>moved := False, node := from_node g link, out_socket := Some (fst link),
                in_socket := None, moved := True\<rparr> = arrive g nav (fst link)"
    by (simp add: arrive_def from_node_def)
  show ?thesis
    using assms
    by (simp add: select_input_socket_def Let_def eq from_node_def[symmetric])
       (simp add: from_node_def arrive_def)
qed

lemma move_back_direct:
  assumes "reroute_chain g s [] p" "in_socket a = Some s" "in_socket b = Some s'"
    "reroute_chain g s' [] p" "stack a = stack b"
  shows "move_back (Suc depth) g a SelNone = move_back (Suc depth) g b SelNone"
proof -
  from assms(1) obtain l1 r1 where l1: "socket_links g s = l1 # r1" "fst l1 = p"
    by (auto split: list.splits)
  from assms(4) obtain l2 r2 where l2: "socket_links g s' = l2 # r2" "fst l2 = p"
    by (auto split: list.splits)
  have "arrive g a p = arrive g b p" using assms(5) by (simp add: arrive_def)
  then show ?thesis
    by (simp only: move_back_linked[OF l1(1) assms(2)] move_back_linked[OF l2(1) assms(3)]
          l1(2) l2(2))
qed

lemma move_back_through_reroutes:
  assumes "reroute_chain g s rs p" "in_socket a = Some s" "in_socket b = Some s'"
    "reroute_chain g s' [] p" "stack a = stack b"
  shows "move_back (Suc depth + length rs) g a SelNone = move_back (Suc depth) g b SelNone"
  using assms
proof (induction rs arbitrary: s a)
  case Nil
  then show ?case
    using move_back_direct[of g s p a b s' depth] by (simp del: move_back.simps)
next
  case (Cons r rs)
  from Cons.prems(1) obtain link rest i irest where
    l: "socket_links g s = link # rest" and fr: "from_node g link = r"
    and rr: "data (node_of g r) = REROUTE" and ii: "inputs (node_of g r) = i # irest"
    and ch: "reroute_chain g i rs p"
    by (auto split: list.splits)
  let ?nav2 = "arrive g a (fst link)"
  have step: "move_back (Suc depth + length (r # rs)) g a SelNone
            = move_back (Suc depth + length rs) g ?nav2 (SelInt 0)"
  proof -
    have "Suc depth + length (r # rs) = Suc (Suc depth + length rs)" by simp
    then show ?thesis
      using fr rr move_back_linked[OF l Cons.prems(2), of "Suc depth + length rs"]
      by (simp add: from_node_def del: move_back.simps)
  qed
  have sel: "select_input_socket g ?nav2 (SelInt 0) = Inr (?nav2\<lparr>in_socket := Some i\<rparr>)"
    using ii fr by (simp add: select_input_socket_def py_index_def arrive_def from_node_def)
  have "move_back (Suc depth + length rs) g ?nav2 (SelInt 0)
      = move_back (Suc depth + length rs) g (?nav2\<lparr>in_socket := Some i\<rparr>) SelNone"
    by (rule move_back_select[OF sel])
  also have "\<dots> = move_back (Suc depth) g b SelNone"
    using Cons.IH[OF ch, of "?nav2\<lparr>in_socket := Some i\<rparr>"] Cons.prems(3,4,5)
    by (simp add: arrive_def del: move_back.simps)
  finally show ?case using step by (simp del: move_back.simps)
qed

lemma move_back_plain_producer:
  assumes "reroute_chain g s' [] p" "in_socket b = Some s'"
    "plain_node (data (node_of g (sock_node (sock_of g p))))"
  shows "move_back (Suc depth) g b SelNone = Inr (arrive g b p)"
proof -
  from assms(1) obtain l2 r2 where l2: "socket_links g s' = l2 # r2" "fst l2 = p"
    by (auto split: list.splits)
  show ?thesis
    using assms(3) move_back_linked[OF l2(1) assms(2), of depth]
    by (simp add: l2(2) plain_node_def del: move_back.simps split: node_data.splits)
qed

text \<open>
  Claim C9: through a chain of N reroute nodes between a producer and an input socket,
  \<^verbatim>\<open>move_back\<close> ends in the same state (node, output socket, group stack) as through a
  direct link from that producer, given N more levels of call depth; when the producer
  is a node at which \<^verbatim>\<open>move_back\<close> stops, that state is the producer with its output
  socket and the caller's stack.
\<close>

theorem move_back_reroutes_transparent:
  assumes "reroute_chain g s rs p" and "reroute_chain g s' [] p"
    and "in_socket a = Some s" and "in_socket b = Some s'" and "stack a = stack b"
  shows "move_back (Suc depth + length rs) g a SelNone = move_back (Suc depth) g b SelNone
    \<and> (plain_node (data (node_of g (sock_node (sock_of g p))))
        \<longrightarrow> move_back (Suc depth + length rs) g a SelNone = Inr (arrive g b p))"
  using move_back_through_reroutes[OF assms(1,3,4,2,5), of depth]
    move_back_plain_producer[OF assms(2,4), of depth]
  by (simp del: move_back.simps)


theorem move_back_reroutes_transparent_witness:
  "move_back 3 g_reroute (cursor_at 0 0) SelNone
     = move_back (Suc 0) g_reroute (cursor_at 0 1) SelNone
   \<and> move_back 3 g_reroute (cursor_at 0 0) SelNone
       = Inr \<lparr>node = 3, out_socket = Some 7, in_socket = None, stack = [(Material, None)],
              moved = True\<rparr>"
proof -
  have c1: "reroute_chain g_reroute 0 [1, 2] 7" by code_simp
  have c2: "reroute_chain g_reroute 1 [] 7" by code_simp
  have c3: "in_socket (cursor_at 0 0) = Some 0" by code_simp
  have c4: "in_socket (cursor_at 0 1) = Some 1" by code_simp
  have c5: "stack (cursor_at 0 0) = stack (cursor_at 0 1)" by code_simp
  have pl: "plain_node (data (node_of g_reroute (sock_node (sock_of g_reroute 7))))"
    by code_simp
  have ar: "arrive g_reroute (cursor_at 0 1) 7
        = \<lparr>node = 3, out_socket = Some 7, in_socket = None, stack = [(Material, None)],
              moved = True\<rparr>"
    by code_simp
  have n: "Suc 0 + length [1::nat, 2] = 3" by simp
  from move_back_reroutes_transparent[OF c1 c2 c3 c4 c5, of 0, unfolded n] pl
  show ?thesis unfolding ar[symmetric] by blast
qed

section \<open>Properties of the alpha detectors\<close>

lemma detect_alpha_clip_atomic:
  "detect_alpha_clip depth g nav = Inr (nav', None) \<Longrightarrow> nav' = nav"
  by (auto simp: detect_alpha_clip_def split: sum.splits if_splits node_data.splits prod.splits)

lemma detect_multiply_by_constant_atomic:
  "detect_multiply_by_constant depth g nav = Inr (nav', None) \<Longrightarrow> nav' = nav"
  by (auto simp: detect_multiply_by_constant_def split: sum.splits option.splits prod.splits)

lemma detect_multiply_by_color_attrib_atomic:
  "detect_multiply_by_color_attrib depth g nav = Inr (nav', None) \<Longrightarrow> nav' = nav"
  by (auto simp: detect_multiply_by_color_attrib_def split: sum.splits option.splits prod.splits)

text \<open>
  Claim C10: each of \<^verbatim>\<open>detect_alpha_clip\<close>, \<^verbatim>\<open>detect_multiply_by_constant\<close> and
  \<^verbatim>\<open>detect_multiply_by_color_attrib\<close> leaves the caller's cursor unchanged when it
  returns None; so the cursor has moved only when the result is not None.
\<close>

theorem detectors_leave_cursor_on_none:
  "(detect_alpha_clip depth g nav = Inr (nav', None) \<longrightarrow> nav' = nav)
   \<and> (detect_multiply_by_constant depth g nav = Inr (nav', None) \<longrightarrow> nav' = nav)
   \<and> (detect_multiply_by_color_attrib depth g nav = Inr (nav', None) \<longrightarrow> nav' = nav)"
  using detect_alpha_clip_atomic detect_multiply_by_constant_atomic
    detect_multiply_by_color_attrib_atomic by blast

lemma result_None:
  "map_sum id snd X = Inr None \<Longrightarrow> \<exists>n. X = Inr (n, None)"
  by (cases X) auto

theorem detectors_leave_cursor_on_none_witness:
  "detect_alpha_clip 10 g_factors (cursor_at 0 4) = Inr (cursor_at 0 4, None)
   \<and> detect_multiply_by_constant 10 g_factors (cursor_at 0 4) = Inr (cursor_at 0 4, None)
   \<and> detect_multiply_by_color_attrib 10 g_factors (cursor_at 0 3) = Inr (cursor_at 0 3, None)"
proof -
  have "map_sum id snd (detect_alpha_clip 10 g_factors (cursor_at 0 4)) = Inr None"
    by code_simp
  then obtain n1 where h1: "detect_alpha_clip 10 g_factors (cursor_at 0 4) = Inr (n1, None)"
    using result_None by blast
  have "map_sum id snd (detect_multiply_by_constant 10 g_factors (cursor_at 0 4)) = Inr None"
    by code_simp
  then obtain n2 where
    h2: "detect_multiply_by_constant 10 g_factors (cursor_at 0 4) = Inr (n2, None)"
    using result_None by blast
  have "map_sum id snd (detect_multiply_by_color_attrib 10 g_factors (cursor_at 0 3))
          = Inr None"
    by code_simp
  then obtain n3 where
    h3: "detect_multiply_by_color_attrib 10 g_factors (cursor_at 0 3) = Inr (n3, None)"
    using result_None by blast
  from h1 detectors_leave_cursor_on_none[of 10 g_factors "cursor_at 0 4" n1]
  have e1: "n1 = cursor_at 0 4" by blast
  from h2 detectors_leave_cursor_on_none[of 10 g_factors "cursor_at 0 4" n2]
  have e2: "n2 = cursor_at 0 4" by blast
  from h3 detectors_leave_cursor_on_none[of 10 g_factors "cursor_at 0 3" n3]
  have e3: "n3 = cursor_at 0 3" by blast
  from h1 h2 h3 show ?thesis unfolding e1 e2 e3 by blast
qed

subsection \<open>What the peeling loop leaves alone\<close>

lemma alpha_factor_step_keeps:
  "alpha_factor_step depth g nav info = Inr (st, nav', info') \<Longrightarrow>
     alphaMode info' = alphaMode info \<and> alphaCutoff info' = alphaCutoff info
     \<and> alphaColorAttrib info' = alphaColorAttrib info"
  by (auto simp: alpha_factor_step_def split: if_splits sum.splits option.splits prod.splits)

lemma alpha_attrib_step_keeps:
  "alpha_attrib_step depth g nav info = Inr (st, nav', info') \<Longrightarrow>
     alphaMode info' = alphaMode info \<and> alphaCutoff info' = alphaCutoff info
     \<and> alphaColorAttrib info' = alphaColorAttrib info"
  by (auto simp: alpha_attrib_step_def split: if_splits sum.splits option.splits prod.splits)

lemma alpha_passes_keeps:
  "alpha_passes k depth g nav info = Inr (nav', info') \<Longrightarrow>
     alphaMode info' = alphaMode info \<and> alphaCutoff info' = alphaCutoff info
     \<and> alphaColorAttrib info' = alphaColorAttrib info"
proof (induction k arbitrary: nav info)
  case 0
  then show ?case by simp
next
  case (Suc k)
  from Suc.prems obtain st nav1 info1 where
    f: "alpha_factor_step depth g nav info = Inr (st, nav1, info1)"
    by (auto split: sum.splits)
  note kf = alpha_factor_step_keeps[OF f]
  show ?case
  proof (cases st)
    case Break
    with Suc.prems f kf show ?thesis by simp
  next
    case Continue
    with Suc.prems f have "alpha_passes k depth g nav1 info1 = Inr (nav', info')" by simp
    from Suc.IH[OF this] kf show ?thesis by simp
  next
    case FallThrough
    with Suc.prems f obtain st2 nav2 info2 where
      a: "alpha_attrib_step depth g nav1 info1 = Inr (st2, nav2, info2)"
      by (auto split: sum.splits)
    note ka = alpha_attrib_step_keeps[OF a]
    show ?thesis
    proof (cases st2)
      case Continue
      with Suc.prems f FallThrough a
      have "alpha_passes k depth g nav2 info2 = Inr (nav', info')" by simp
      from Suc.IH[OF this] kf ka show ?thesis by simp
    next
      case Break
      with Suc.prems f FallThrough a kf ka show ?thesis by simp
    next
      case FallThrough2: FallThrough
      with Suc.prems f FallThrough a kf ka show ?thesis by simp
    qed
  qed
qed

lemma gather_alpha_info_attrib_None:
  "gather_alpha_info depth g nav_opt = Inr info \<Longrightarrow> alphaColorAttrib info = None"
  by (auto simp: gather_alpha_info_def Let_def dest!: alpha_passes_keeps
           split: option.splits sum.splits prod.splits if_splits)

lemma gather_opaque:
  assumes "get_constant depth g nav SelNone = Inr (nav0, Some (CFloat 1))"
  shows "gather_alpha_info depth g (Some nav)
    = Inr \<lparr>alphaMode = Some ''OPAQUE'', alphaCutoff = None, alphaFactor = None,
           alphaColorAttrib = None, alphaColorAttr = None\<rparr>"
  using assms by (simp add: gather_alpha_info_def)

lemma get_constant_behind_math:
  assumes "peek_back depth g nav SelNone = Inr nav1" "moved nav1"
    "data (node_of g (node nav1)) = MATH op"
  shows "get_constant depth g nav SelNone = Inr (nav, None)"
proof -
  from peek_back_moved_linked[OF assms(1,2)] obtain s where
    s: "in_socket nav = Some s" "is_linked g s" by auto
  show ?thesis
    using assms(1,3) s
    by (intro get_constant_not_literal[where s = s and nav' = nav1])
       (auto simp: select_input_socket_SelNone)
qed

lemma gather_after_clip:
  assumes c: "get_constant depth g nav SelNone = Inr (nav, None)"
    and d: "detect_alpha_clip depth g nav = Inr (nav2, Some cutoff)"
  shows "case gather_alpha_info depth g (Some nav) of
           Inl e \<Rightarrow> alpha_passes 2 depth g nav2 (mask_info cutoff) = Inl e
         | Inr info \<Rightarrow> alphaMode info = Some ''MASK'' \<and> alphaCutoff info = Some cutoff"
proof (cases "alpha_passes 2 depth g nav2 (mask_info cutoff)")
  case (Inl e)
  then show ?thesis
    using c d by (simp add: gather_alpha_info_def mask_info_def del: alpha_passes.simps)
next
  case (Inr r)
  obtain nav3 info3 where r: "r = (nav3, info3)" by (cases r)
  from alpha_passes_keeps[OF Inr[unfolded r]]
  have k: "alphaMode info3 = Some ''MASK''" "alphaCutoff info3 = Some cutoff"
    by (simp_all add: mask_info_def)
  show ?thesis
    using c d Inr r k
    by (simp add: gather_alpha_info_def mask_info_def del: alpha_passes.simps)
qed

lemma detect_round:
  assumes "peek_back depth g nav SelNone = Inr nav1" "moved nav1"
    "data (node_of g (node nav1)) = MATH ''ROUND''"
    "select_input_socket g nav1 (SelInt 0) = Inr nav2"
  shows "detect_alpha_clip depth g nav = Inr (nav2, Some (CFloat 0.5))"
  using assms by (simp add: detect_alpha_clip_def)

lemma detect_one_minus_less_than:
  assumes "peek_back depth g nav SelNone = Inr nav1" "moved nav1"
    "data (node_of g (node nav1)) = MATH ''SUBTRACT''"
    "get_constant depth g nav1 (SelInt 0) = Inr (nav1a, Some (CFloat 1))"
    "peek_back depth g nav1a (SelInt 1) = Inr x" "moved x"
    "data (node_of g (node x)) = MATH ''LESS_THAN''"
    "get_constant depth g x (SelInt 0) = Inr (xa, None)"
    "get_constant depth g xa (SelInt 1) = Inr (xb, Some cutoff)"
    "select_input_socket g xb (SelInt 0) = Inr nav2"
  shows "detect_alpha_clip depth g nav = Inr (nav2, Some cutoff)"
  using assms by (simp add: detect_alpha_clip_def)

lemma detect_alpha_clip_constant:
  assumes "get_constant (Suc d) g nav SelNone = Inr (nav0, Some c)"
  shows "detect_alpha_clip (Suc d) g nav = Inr (nav, None)"
proof (cases "in_socket nav")
  case None
  then show ?thesis
    by (simp add: detect_alpha_clip_def peek_back_def select_input_socket_def)
next
  case (Some s)
  show ?thesis
  proof (cases "is_linked g s")
    case False
    then show ?thesis
      using Some
      by (simp add: detect_alpha_clip_def peek_back_def select_input_socket_def is_linked_def)
  next
    case True
    then show ?thesis
      using Some assms
      by (auto simp: detect_alpha_clip_def get_constant_def select_input_socket_def
               split: sum.splits if_splits option.splits)
  qed
qed

lemma gather_blend:
  assumes c: "get_constant (Suc d) g nav SelNone = Inr (nav0, Some c)"
    and n1: "\<not> const_eq_num (Some c) 1" and n0: "\<not> const_eq_num (Some c) 0"
  shows "gather_alpha_info (Suc d) g (Some nav)
    = Inr \<lparr>alphaMode = Some ''BLEND'', alphaCutoff = None, alphaFactor = Some c,
           alphaColorAttrib = None, alphaColorAttr = None\<rparr>"
proof -
  have nv: "nav0 = nav"
    using c by (auto simp: get_constant_def select_input_socket_def
                     split: option.splits if_splits sum.splits)
  have p: "alpha_passes 2 (Suc d) g nav empty_info
         = Inr (nav, empty_info\<lparr>alphaFactor := Some c\<rparr>)"
    using c nv by (simp add: numeral_2_eq_2 alpha_factor_step_def empty_info_def)
  show ?thesis
    using c nv n1 n0 detect_alpha_clip_constant[OF c] p
    by (simp add: gather_alpha_info_def empty_info_def del: alpha_passes.simps)
qed

subsection \<open>Alpha modes\<close>

text \<open>
  The modes of the results that \<^verbatim>\<open>gather_alpha_info\<close> returns: OPAQUE for an alpha
  that reads as the constant 1; MASK with cutoff 0.5 behind a round node; MASK with the
  cutoff of the comparison behind 1 - (x < cutoff); BLEND with alphaFactor the constant
  for a constant other than 0 and 1. In the two MASK cases the peeling loop still runs on
  the rest of the chain: the function fails only if that loop fails, and every result it
  returns has the mode and the cutoff stated.
\<close>

lemma gather_alpha_info_modes_when_reads_return:
  "(get_constant depth g nav SelNone = Inr (nav0, Some (CFloat 1))
      \<longrightarrow> gather_alpha_info depth g (Some nav)
            = Inr \<lparr>alphaMode = Some ''OPAQUE'', alphaCutoff = None, alphaFactor = None,
                   alphaColorAttrib = None, alphaColorAttr = None\<rparr>)
   \<and> (peek_back depth g nav SelNone = Inr nav1 \<and> moved nav1
       \<and> data (node_of g (node nav1)) = MATH ''ROUND''
       \<and> select_input_socket g nav1 (SelInt 0) = Inr nav2
      \<longrightarrow> (case gather_alpha_info depth g (Some nav) of
             Inl e \<Rightarrow> alpha_passes 2 depth g nav2 (mask_info (CFloat 0.5)) = Inl e
           | Inr info \<Rightarrow>
               alphaMode info = Some ''MASK'' \<and> alphaCutoff info = Some (CFloat 0.5)))
   \<and> (peek_back depth g nav SelNone = Inr nav1 \<and> moved nav1
       \<and> data (node_of g (node nav1)) = MATH ''SUBTRACT''
       \<and> get_constant depth g nav1 (SelInt 0) = Inr (nav1a, Some (CFloat 1))
       \<and> peek_back depth g nav1a (SelInt 1) = Inr x \<and> moved x
       \<and> data (node_of g (node x)) = MATH ''LESS_THAN''
       \<and> get_constant depth g x (SelInt 0) = Inr (xa, None)
       \<and> get_constant depth g xa (SelInt 1) = Inr (xb, Some cutoff)
       \<and> select_input_socket g xb (SelInt 0) = Inr nav2
      \<longrightarrow> (case gather_alpha_info depth g (Some nav) of
             Inl e \<Rightarrow> alpha_passes 2 depth g nav2 (mask_info cutoff) = Inl e
           | Inr info \<Rightarrow> alphaMode info = Some ''MASK'' \<and> alphaCutoff info = Some cutoff))
   \<and> (0 < depth \<and> get_constant depth g nav SelNone = Inr (nav0, Some c)
       \<and> \<not> const_eq_num (Some c) 1 \<and> \<not> const_eq_num (Some c) 0
      \<longrightarrow> gather_alpha_info depth g (Some nav)
            = Inr \<lparr>alphaMode = Some ''BLEND'', alphaCutoff = None, alphaFactor = Some c,
                   alphaColorAttrib = None, alphaColorAttr = None\<rparr>)"
proof (intro conjI impI)
  assume "get_constant depth g nav SelNone = Inr (nav0, Some (CFloat 1))"
  then show "gather_alpha_info depth g (Some nav)
            = Inr \<lparr>alphaMode = Some ''OPAQUE'', alphaCutoff = None, alphaFactor = None,
                   alphaColorAttrib = None, alphaColorAttr = None\<rparr>"
    by (rule gather_opaque)
next
  assume h: "peek_back depth g nav SelNone = Inr nav1 \<and> moved nav1
       \<and> data (node_of g (node nav1)) = MATH ''ROUND''
       \<and> select_input_socket g nav1 (SelInt 0) = Inr nav2"
  then have c: "get_constant depth g nav SelNone = Inr (nav, None)"
    using get_constant_behind_math by blast
  from h have d: "detect_alpha_clip depth g nav = Inr (nav2, Some (CFloat 0.5))"
    using detect_round by blast
  show "case gather_alpha_info depth g (Some nav) of
             Inl e \<Rightarrow> alpha_passes 2 depth g nav2 (mask_info (CFloat 0.5)) = Inl e
           | Inr info \<Rightarrow>
               alphaMode info = Some ''MASK'' \<and> alphaCutoff info = Some (CFloat 0.5)"
    by (rule gather_after_clip[OF c d])
next
  assume h: "peek_back depth g nav SelNone = Inr nav1 \<and> moved nav1
       \<and> data (node_of g (node nav1)) = MATH ''SUBTRACT''
       \<and> get_constant depth g nav1 (SelInt 0) = Inr (nav1a, Some (CFloat 1))
       \<and> peek_back depth g nav1a (SelInt 1) = Inr x \<and> moved x
       \<and> data (node_of g (node x)) = MATH ''LESS_THAN''
       \<and> get_constant depth g x (SelInt 0) = Inr (xa, None)
       \<and> get_constant depth g xa (SelInt 1) = Inr (xb, Some cutoff)
       \<and> select_input_socket g xb (SelInt 0) = Inr nav2"
  then have c: "get_constant depth g nav SelNone = Inr (nav, None)"
    using get_constant_behind_math by blast
  from h have d: "detect_alpha_clip depth g nav = Inr (nav2, Some cutoff)"
    using detect_one_minus_less_than by blast
  show "case gather_alpha_info depth g (Some nav) of
             Inl e \<Rightarrow> alpha_passes 2 depth g nav2 (mask_info cutoff) = Inl e
           | Inr info \<Rightarrow> alphaMode info = Some ''MASK'' \<and> alphaCutoff info = Some cutoff"
    by (rule gather_after_clip[OF c d])
next
  assume h: "0 < depth \<and> get_constant depth g nav SelNone = Inr (nav0, Some c)
       \<and> \<not> const_eq_num (Some c) 1 \<and> \<not> const_eq_num (Some c) 0"
  then obtain d where d: "depth = Suc d" by (cases depth) auto
  from h show "gather_alpha_info depth g (Some nav)
            = Inr \<lparr>alphaMode = Some ''BLEND'', alphaCutoff = None, alphaFactor = Some c,
                   alphaColorAttrib = None, alphaColorAttr = None\<rparr>"
    unfolding d using gather_blend by blast
qed

lemma returns_value: "map_sum id (\<lambda>_. ()) X = Inr () \<Longrightarrow> \<exists>v. X = Inr v"
  by (cases X) auto

lemma gather_alpha_info_modes_on_g_alpha:
  "gather_alpha_info 10 g_alpha (Some (cursor_at 0 0))
     = Inr \<lparr>alphaMode = Some ''OPAQUE'', alphaCutoff = None, alphaFactor = None,
            alphaColorAttrib = None, alphaColorAttr = None\<rparr>
   \<and> (\<exists>info. gather_alpha_info 10 g_alpha (Some (cursor_at 0 2)) = Inr info
        \<and> alphaMode info = Some ''MASK'' \<and> alphaCutoff info = Some (CFloat 0.5))
   \<and> (\<exists>info. gather_alpha_info 10 g_alpha (Some (cursor_at 0 3)) = Inr info
        \<and> alphaMode info = Some ''MASK'' \<and> alphaCutoff info = Some (CFloat 0.3))
   \<and> gather_alpha_info 10 g_alpha (Some (cursor_at 0 1))
       = Inr \<lparr>alphaMode = Some ''BLEND'', alphaCutoff = None, alphaFactor = Some (CFloat 0.4),
              alphaColorAttrib = None, alphaColorAttr = None\<rparr>"
proof -
  have a: "get_constant 10 g_alpha (cursor_at 0 0) SelNone
             = Inr (cursor_at 0 0, Some (CFloat 1))"
    by code_simp
  have b: "peek_back 10 g_alpha (cursor_at 0 2) SelNone = Inr (arrive g_alpha (cursor_at 0 2) 6)
     \<and> moved (arrive g_alpha (cursor_at 0 2) 6)
     \<and> data (node_of g_alpha (node (arrive g_alpha (cursor_at 0 2) 6))) = MATH ''ROUND''
     \<and> select_input_socket g_alpha (arrive g_alpha (cursor_at 0 2) 6) (SelInt 0)
         = Inr ((arrive g_alpha (cursor_at 0 2) 6)\<lparr>in_socket := Some 4\<rparr>)"
    by code_simp
  have br: "map_sum id (\<lambda>_. ()) (gather_alpha_info 10 g_alpha (Some (cursor_at 0 2))) = Inr ()"
    by code_simp
  then obtain i2 where i2: "gather_alpha_info 10 g_alpha (Some (cursor_at 0 2)) = Inr i2"
    using returns_value by blast
  have c: "peek_back 10 g_alpha (cursor_at 0 3) SelNone = Inr (arrive g_alpha (cursor_at 0 3) 9)
     \<and> moved (arrive g_alpha (cursor_at 0 3) 9)
     \<and> data (node_of g_alpha (node (arrive g_alpha (cursor_at 0 3) 9))) = MATH ''SUBTRACT''
     \<and> get_constant 10 g_alpha (arrive g_alpha (cursor_at 0 3) 9) (SelInt 0)
         = Inr ((arrive g_alpha (cursor_at 0 3) 9)\<lparr>in_socket := Some 7\<rparr>, Some (CFloat 1))
     \<and> peek_back 10 g_alpha ((arrive g_alpha (cursor_at 0 3) 9)\<lparr>in_socket := Some 7\<rparr>) (SelInt 1)
         = Inr (arrive g_alpha (cursor_at 0 3) 12)
     \<and> moved (arrive g_alpha (cursor_at 0 3) 12)
     \<and> data (node_of g_alpha (node (arrive g_alpha (cursor_at 0 3) 12))) = MATH ''LESS_THAN''
     \<and> get_constant 10 g_alpha (arrive g_alpha (cursor_at 0 3) 12) (SelInt 0)
         = Inr ((arrive g_alpha (cursor_at 0 3) 12)\<lparr>in_socket := Some 10\<rparr>, None)
     \<and> get_constant 10 g_alpha ((arrive g_alpha (cursor_at 0 3) 12)\<lparr>in_socket := Some 10\<rparr>)
           (SelInt 1)
         = Inr ((arrive g_alpha (cursor_at 0 3) 12)\<lparr>in_socket := Some 11\<rparr>, Some (CFloat 0.3))
     \<and> select_input_socket g_alpha ((arrive g_alpha (cursor_at 0 3) 12)\<lparr>in_socket := Some 11\<rparr>)
           (SelInt 0)
         = Inr ((arrive g_alpha (cursor_at 0 3) 12)\<lparr>in_socket := Some 10\<rparr>)"
    by code_simp
  have cr: "map_sum id (\<lambda>_. ()) (gather_alpha_info 10 g_alpha (Some (cursor_at 0 3))) = Inr ()"
    by code_simp
  then obtain i3 where i3: "gather_alpha_info 10 g_alpha (Some (cursor_at 0 3)) = Inr i3"
    using returns_value by blast
  have d: "(0::nat) < 10 \<and> get_constant 10 g_alpha (cursor_at 0 1) SelNone
             = Inr (cursor_at 0 1, Some (CFloat 0.4))
     \<and> \<not> const_eq_num (Some (CFloat 0.4)) 1 \<and> \<not> const_eq_num (Some (CFloat 0.4)) 0"
    by code_simp
  note t = gather_alpha_info_modes_when_reads_return
  from a t[where depth = 10 and g = g_alpha and nav = "cursor_at 0 0" and nav0 = "cursor_at 0 0"]
  have ra: "gather_alpha_info 10 g_alpha (Some (cursor_at 0 0))
     = Inr \<lparr>alphaMode = Some ''OPAQUE'', alphaCutoff = None, alphaFactor = None,
            alphaColorAttrib = None, alphaColorAttr = None\<rparr>"
    by blast
  from b t[where depth = 10 and g = g_alpha and nav = "cursor_at 0 2"
      and ?nav1.0 = "arrive g_alpha (cursor_at 0 2) 6"
      and ?nav2.0 = "(arrive g_alpha (cursor_at 0 2) 6)\<lparr>in_socket := Some 4\<rparr>"]
  have "case gather_alpha_info 10 g_alpha (Some (cursor_at 0 2)) of
          Inl e \<Rightarrow> alpha_passes 2 10 g_alpha
             ((arrive g_alpha (cursor_at 0 2) 6)\<lparr>in_socket := Some 4\<rparr>)
             (mask_info (CFloat 0.5)) = Inl e
        | Inr info \<Rightarrow> alphaMode info = Some ''MASK'' \<and> alphaCutoff info = Some (CFloat 0.5)"
    by blast
  then have rb: "alphaMode i2 = Some ''MASK'' \<and> alphaCutoff i2 = Some (CFloat 0.5)"
    unfolding i2 by simp
  from c t[where depth = 10 and g = g_alpha and nav = "cursor_at 0 3"
      and ?nav1.0 = "arrive g_alpha (cursor_at 0 3) 9"
      and ?nav2.0 = "(arrive g_alpha (cursor_at 0 3) 12)\<lparr>in_socket := Some 10\<rparr>"
      and nav1a = "(arrive g_alpha (cursor_at 0 3) 9)\<lparr>in_socket := Some 7\<rparr>"
      and x = "arrive g_alpha (cursor_at 0 3) 12"
      and xa = "(arrive g_alpha (cursor_at 0 3) 12)\<lparr>in_socket := Some 10\<rparr>"
      and xb = "(arrive g_alpha (cursor_at 0 3) 12)\<lparr>in_socket := Some 11\<rparr>"
      and cutoff = "CFloat 0.3"]
  have "case gather_alpha_info 10 g_alpha (Some (cursor_at 0 3)) of
          Inl e \<Rightarrow> alpha_passes 2 10 g_alpha
             ((arrive g_alpha (cursor_at 0 3) 12)\<lparr>in_socket := Some 10\<rparr>)
             (mask_info (CFloat 0.3)) = Inl e
        | Inr info \<Rightarrow> alphaMode info = Some ''MASK'' \<and> alphaCutoff info = Some (CFloat 0.3)"
    by blast
  then have rc: "alphaMode i3 = Some ''MASK'' \<and> alphaCutoff i3 = Some (CFloat 0.3)"
    unfolding i3 by simp
  from d t[where depth = 10 and g = g_alpha and nav = "cursor_at 0 1"
      and nav0 = "cursor_at 0 1" and c = "CFloat 0.4"]
  have rd: "gather_alpha_info 10 g_alpha (Some (cursor_at 0 1))
       = Inr \<lparr>alphaMode = Some ''BLEND'', alphaCutoff = None, alphaFactor = Some (CFloat 0.4),
              alphaColorAttrib = None, alphaColorAttr = None\<rparr>"
    by blast
  from ra rb rc rd i2 i3 show ?thesis by blast
qed

text \<open>
  Claim C4: \<^verbatim>\<open>gather_alpha_info\<close> maps the canonical alpha inputs to modes: a constant
  alpha of exactly 1 gives OPAQUE; a round math node on the alpha input gives MASK with
  cutoff 0.5; an alpha fed by 1 - (x < 0.3) gives MASK with cutoff 0.3; a constant other
  than 0 and 1 with no recognised idiom gives BLEND with alphaFactor the constant. The
  code does not when a constant comes from a value node: in \<open>g_value_factor\<close>, on an
  alpha fed by a round node over texture alpha times a value node, and on an alpha fed
  by a value node holding 1, \<^verbatim>\<open>gather_alpha_info\<close> raises AttributeError (the defect of
  \<open>get_constant_value_node_raises\<close>) where MASK with cutoff 0.5, and OPAQUE, are due.
  On \<open>g_alpha\<close>, where the constants are socket defaults, the four modes come out as
  claimed (\<open>gather_alpha_info_modes_on_g_alpha\<close>).
\<close>

theorem gather_alpha_info_value_node_raises:
  "gather_alpha_info 10 g_value_factor (Some (cursor_at 0 0)) = Inl AttributeError
   \<and> gather_alpha_info 10 g_value_factor (Some (cursor_at 0 2)) = Inl AttributeError
   \<and> detect_alpha_clip 10 g_value_factor (cursor_at 0 0)
       = Inr (arrive g_value_factor (cursor_at 0 0) 4\<lparr>in_socket := Some 3\<rparr>, Some (CFloat 0.5))"
  by code_simp

subsection \<open>The colour attribute of alpha\<close>

text \<open>
  Claim C1: when the chain feeding alpha multiplies by a colour attribute node, the result
  of \<^verbatim>\<open>gather_alpha_info\<close> holds the attribute's name in \<^verbatim>\<open>alphaColorAttrib\<close>. The
  code stores the name under the key \<^verbatim>\<open>alphaColorAttr\<close> instead, so
  \<^verbatim>\<open>alphaColorAttrib\<close> stays None: here on alpha = attribute ``Col'' times texture. The
  lemma \<open>gather_alpha_info_attrib_None\<close> shows that the field is None in every result.
\<close>

theorem gather_alpha_info_loses_color_attrib:
  "gather_alpha_info 10 g_alpha_attrib (Some (cursor_at 0 0))
     = Inr \<lparr>alphaMode = Some ''BLEND'', alphaCutoff = None, alphaFactor = None,
            alphaColorAttrib = None, alphaColorAttr = Some ''Col''\<rparr>"
  by code_simp

section \<open>Properties of the specular export\<close>

lemma export_specular_unlinked:
  assumes "\<not> is_linked g s" "\<not> is_linked g t"
    and "default_value (sock_of g s) = CFloat v"
    and "default_value (sock_of g t) = CList [r, gr, b, a]"
  shows "export_specular host g (Some s) (Some t) =
     (let f = v * 2;
          color = (if f > 1 then [r * f, gr * f, b * f] else [r, gr, b]);
          d1 = (if f < 1 then [(''specularFactor'', PFloat f)] else []);
          d2 = d1 @ [(''specularColorFactor'', if color \<noteq> [1, 1, 1] then PTuple color else PNone)]
      in if f = 1 \<and> color = [1, 1, 1] then Inr (None, [])
         else Inr (Some \<lparr>ext_name = ''KHR_materials_specular'', extension = d2,
                         required = False\<rparr>, []))"
  using assms
  by (auto simp add: export_specular_def specular_strength_def specular_tint_def Let_def
        fac_exceeds_def scale3_def store_color_def)


text \<open>
  Claim C3: with the specular strength and the specular tint both unconnected,
  \<^verbatim>\<open>export_specular\<close> emits no extension for strength 0.5 (doubled: 1) and a white
  tint; for strength 0.3 it emits specularFactor 0.6 and no texture; for strength 0.8
  (doubled: 1.6) it emits no specularFactor and scales the tint by 1.6. The colour factor
  is stored as None when the colour, after scaling, is exactly white.
\<close>

theorem export_specular_unlinked_scenarios:
  assumes "\<not> is_linked g s" and "\<not> is_linked g t"
    and "default_value (sock_of g s) = CFloat v"
    and "default_value (sock_of g t) = CList [r, gr, b, a]"
  shows "(v = 0.5 \<and> r = 1 \<and> gr = 1 \<and> b = 1
            \<longrightarrow> export_specular host g (Some s) (Some t) = Inr (None, []))
       \<and> (v = 0.3
            \<longrightarrow> export_specular host g (Some s) (Some t)
                  = Inr (Some \<lparr>ext_name = ''KHR_materials_specular'',
                               extension =
                                 [(''specularFactor'', PFloat 0.6),
                                  (''specularColorFactor'',
                                   if [r, gr, b] \<noteq> [1, 1, 1] then PTuple [r, gr, b] else PNone)],
                               required = False\<rparr>, []))
       \<and> (v = 0.8
            \<longrightarrow> export_specular host g (Some s) (Some t)
                  = Inr (Some \<lparr>ext_name = ''KHR_materials_specular'',
                               extension =
                                 [(''specularColorFactor'',
                                   if [r * 1.6, gr * 1.6, b * 1.6] \<noteq> [1, 1, 1]
                                   then PTuple [r * 1.6, gr * 1.6, b * 1.6] else PNone)],
                               required = False\<rparr>, []))"
proof (intro conjI impI)
  assume "v = 0.5 \<and> r = 1 \<and> gr = 1 \<and> b = 1"
  then show "export_specular host g (Some s) (Some t) = Inr (None, [])"
    using export_specular_unlinked[OF assms, of host] by (simp add: Let_def)
next
  assume v: "v = 0.3"
  then have "v * 2 = 0.6" by simp
  then show "export_specular host g (Some s) (Some t)
      = Inr (Some \<lparr>ext_name = ''KHR_materials_specular'',
                   extension =
                     [(''specularFactor'', PFloat 0.6),
                      (''specularColorFactor'',
                       if [r, gr, b] \<noteq> [1, 1, 1] then PTuple [r, gr, b] else PNone)],
                   required = False\<rparr>, [])"
    using export_specular_unlinked[OF assms, of host] by (simp add: Let_def)
next
  assume v: "v = 0.8"
  show "export_specular host g (Some s) (Some t)
      = Inr (Some \<lparr>ext_name = ''KHR_materials_specular'',
                   extension =
                     [(''specularColorFactor'',
                       if [r * 1.6, gr * 1.6, b * 1.6] \<noteq> [1, 1, 1]
                       then PTuple [r * 1.6, gr * 1.6, b * 1.6] else PNone)],
                   required = False\<rparr>, [])"
    using export_specular_unlinked[OF assms, of host, unfolded v] by (simp add: Let_def)
qed

theorem export_specular_unlinked_scenarios_witness:
  "export_specular no_host (g_specular 0.5 [1, 1, 1, 1]) (Some 0) (Some 1) = Inr (None, [])
   \<and> export_specular no_host (g_specular 0.3 [1, 1, 1, 1]) (Some 0) (Some 1)
       = Inr (Some \<lparr>ext_name = ''KHR_materials_specular'',
                    extension = [(''specularFactor'', PFloat 0.6),
                                 (''specularColorFactor'', PNone)],
                    required = False\<rparr>, [])
   \<and> export_specular no_host (g_specular 0.8 [1, 0.5, 0.25, 1]) (Some 0) (Some 1)
       = Inr (Some \<lparr>ext_name = ''KHR_materials_specular'',
                    extension = [(''specularColorFactor'', PTuple [1.6, 0.8, 0.4])],
                    required = False\<rparr>, [])"
proof -
  have h: "\<not> is_linked (g_specular v c) 0" "\<not> is_linked (g_specular v c) 1"
    "default_value (sock_of (g_specular v c) 0) = CFloat v"
    "default_value (sock_of (g_specular v c) 1) = CList c" for v c
    by (simp_all add: g_specular_def is_linked_def socket_links_def store_def input_socket_def)
  show ?thesis
    using export_specular_unlinked_scenarios[OF h(1) h(2) h(3) h(4), where v = "0.5" and r = 1
          and gr = 1 and b = 1 and a = 1 and host = no_host]
      export_specular_unlinked_scenarios[OF h(1) h(2) h(3) h(4), where v = "0.3" and r = 1
          and gr = 1 and b = 1 and a = 1 and host = no_host]
      export_specular_unlinked_scenarios[OF h(1) h(2) h(3) h(4), where v = "0.8" and r = 1
          and gr = "0.5" and b = "0.25" and a = 1 and host = no_host]
    by simp
qed

section \<open>Properties of the texture transform\<close>









section \<open>Properties of the anisotropy detector\<close>

lemma anisotropy_complete:
  "detect_anisotropy_nodes 10 10 (g_anisotropy anisotropy_links)
       (material_socket 0) (material_socket 1) (material_socket 2)
     = Some (Inr (True, Some \<lparr>anisotropyStrength = Some (CFloat 0.7),
                               anisotropyRotation = Some (CFloat 0.25),
                               tangent = ''UVMap'',
                               tex_socket = material_socket 20\<rparr>))"
  by code_simp

lemma anisotropy_wrong_operation:
  "detect_anisotropy_nodes 10 10 (g_anisotropy (remove1 (6, 0) anisotropy_links @ [(16, 0)]))
       (material_socket 0) (material_socket 1) (material_socket 2)
     = Some (Inr (False, None))"
  by code_simp

text \<open>
  Claim C8: \<^verbatim>\<open>detect_anisotropy_nodes\<close> declares anisotropy only if every link,
  operation and constant of the chain matches, and any single deviation, a missing link
  included, makes it return (False, None). The code does not for one link: it reads
  \<^verbatim>\<open>arctan2_node.inputs[0].links[0]\<close> without the \<^verbatim>\<open>is_linked\<close> test that every other
  step makes, so on the setup with the link from Y to the arctangent node missing it
  raises IndexError. The complete setup is detected (\<open>anisotropy_complete\<close>), and a
  wrong operation is declined (\<open>anisotropy_wrong_operation\<close>).
\<close>

theorem detect_anisotropy_missing_link_raises:
  "detect_anisotropy_nodes 10 10 (g_anisotropy (remove1 (9, 11) anisotropy_links))
       (material_socket 0) (material_socket 1) (material_socket 2)
     = Some (Inl IndexError)"
  by code_simp

end
